theory Spec2Isabelle
  imports Complex_Main
begin

section \<open>Shared data model\<close>

text \<open>
  A stock symbol record as the screens use it (\<open>StockSymbol\<close> of
  \<open>@/lib/api-stock-symbols\<close>, read off its uses): the identifier may arrive
  as \<open>_id\<close> or as \<open>id\<close>, the prices are decimal strings.
\<close>

record StockSymbol =
  stock_id :: "string option"      \<comment> \<open>the field \<open>_id\<close>\<close>
  stock_id_alt :: "string option"  \<comment> \<open>the field \<open>id\<close>\<close>
  symbol :: string
  name :: string
  exchange :: string
  currentPrice :: string
  previousPrice :: string

text \<open>A thrown value: an \<open>Error\<close> instance with its message, or anything else.\<close>

datatype js_error = Error string | NonError

text \<open>A notification passed to \<open>toast\<close>.\<close>

record toast =
  toast_title :: string
  toast_description :: string
  destructive :: bool

section \<open>The stock-symbols page\<close>

datatype RefreshInterval = I5 | I10 | I30 | I60 | I300

fun REFRESH_INTERVALS :: "RefreshInterval \<Rightarrow> nat" where
  "REFRESH_INTERVALS I5 = 5000"
| "REFRESH_INTERVALS I10 = 10000"
| "REFRESH_INTERVALS I30 = 30000"
| "REFRESH_INTERVALS I60 = 60000"
| "REFRESH_INTERVALS I300 = 300000"

record pagination =
  page :: nat
  limit :: nat
  total :: nat
  pages :: nat

record StockSymbolsResponse =
  data :: "StockSymbol list"
  response_pagination :: "pagination option"

text \<open>
  An interval timer of the environment: its handle, its period, and the values of the
  render its callback closed over (\<open>refreshStockData\<close> reads \<open>pagination\<close> and
  \<open>updateCounter\<close> of the render in which \<open>startRealTimeUpdates\<close> ran).
\<close>

record interval_timer =
  handle :: nat
  period :: nat
  captured_pagination :: pagination
  captured_updateCounter :: nat

text \<open>
  What a screen with a debounced search shares: the \<open>timeout\<close> variable captured by
  the debounced function, and the part of the environment the screen acts on: the
  pending one-shot timers (handle, due time, argument), the next free timer handle, the
  clock in milliseconds, the notifications shown, the remote search calls issued and the
  arguments of the one-shot timers that fired. Timer handles are positive, so a stored
  handle is truthy.
\<close>

record timer_env =
  timeout :: "nat option"
  timeouts :: "(nat \<times> nat \<times> string) list"
  next_handle :: nat
  clock :: nat
  toasts :: "toast list"
  searchCalls :: "string list"
  fired :: "string list"

text \<open>
  The state of one mounted \<open>StockSymbolsPage\<close>: the \<open>useState\<close> cells and the
  two refs of the component, the active interval timers and the log of the
  \<open>fetchStockSymbols\<close> calls of the refresh loop.
\<close>

record page_state = timer_env +
  stockSymbols :: "StockSymbol list"
  searchQuery :: string
  searchResults :: "StockSymbol list"
  isSearching :: bool
  pagination :: pagination
  isUserAuthenticated :: bool
  isRealTimeEnabled :: bool
  refreshInterval :: RefreshInterval
  lastUpdateTime :: "nat option"
  isConnected :: bool
  updateCounter :: nat
  intervalRef :: "nat option"
  lastUpdateRef :: "nat option"
  intervals :: "interval_timer list"
  fetchCalls :: "(nat \<times> nat) list"

text \<open>
  The state at the first render. The list load started by the mount effect is not part
  of the model.
\<close>

definition initial_page :: page_state where
  "initial_page = \<lparr>
     timeout = None, timeouts = [], next_handle = 1, clock = 0, toasts = [],
     searchCalls = [], fired = [],
     stockSymbols = [], searchQuery = [], searchResults = [], isSearching = False,
     pagination = \<lparr>page = 1, limit = 50, total = 0, pages = 0\<rparr>,
     isUserAuthenticated = True, isRealTimeEnabled = False, refreshInterval = I30,
     lastUpdateTime = None, isConnected = True, updateCounter = 0,
     intervalRef = None, lastUpdateRef = None, intervals = [], fetchCalls = [] \<rparr>"

subsection \<open>The real-time refresh loop\<close>

text \<open>
  \<open>stopRealTimeUpdates\<close>: \<open>if (intervalRef.current) { clearInterval(intervalRef.current);
  intervalRef.current = null; }\<close>. \<open>clearInterval\<close> removes the timer with that handle
  from the environment.
\<close>

definition clearInterval :: "nat \<Rightarrow> page_state \<Rightarrow> page_state" where
  "clearInterval h st = st\<lparr>intervals := filter (\<lambda>t. handle t \<noteq> h) (intervals st)\<rparr>"

definition stopRealTimeUpdates :: "page_state \<Rightarrow> page_state" where
  "stopRealTimeUpdates st =
     (case intervalRef st of
        None \<Rightarrow> st
      | Some h \<Rightarrow> (clearInterval h st)\<lparr>intervalRef := None\<rparr>)"

text \<open>
  \<open>startRealTimeUpdates\<close>: stop first, then \<open>setInterval\<close> with the period of the
  configured key; the new handle is stored in \<open>intervalRef\<close>.
\<close>

definition startRealTimeUpdates :: "page_state \<Rightarrow> page_state" where
  "startRealTimeUpdates st =
     (let st1 = stopRealTimeUpdates st;
          interval = REFRESH_INTERVALS (refreshInterval st1);
          h = next_handle st1
      in st1\<lparr>intervals := intervals st1 @
                 [\<lparr>handle = h, period = interval, captured_pagination = pagination st1,
                   captured_updateCounter = updateCounter st1\<rparr>],
              next_handle := Suc h,
              intervalRef := Some h\<rparr>)"

text \<open>
  The effect on \<open>[isRealTimeEnabled, refreshInterval, isUserAuthenticated]\<close> and its
  cleanup. When a dependency changes, React runs the cleanup of the previous run and
  then the effect again; setting a state cell to the value it has does nothing.
\<close>

definition realTimeEffect :: "page_state \<Rightarrow> page_state" where
  "realTimeEffect st =
     (if isRealTimeEnabled st \<and> isUserAuthenticated st
      then startRealTimeUpdates st else stopRealTimeUpdates st)"

definition rerunRealTimeEffect :: "page_state \<Rightarrow> page_state" where
  "rerunRealTimeEffect st = realTimeEffect (stopRealTimeUpdates st)"

definition setIsRealTimeEnabled :: "bool \<Rightarrow> page_state \<Rightarrow> page_state" where
  "setIsRealTimeEnabled b st =
     (if b = isRealTimeEnabled st then st
      else rerunRealTimeEffect (st\<lparr>isRealTimeEnabled := b\<rparr>))"

definition setRefreshInterval :: "RefreshInterval \<Rightarrow> page_state \<Rightarrow> page_state" where
  "setRefreshInterval i st =
     (if i = refreshInterval st then st
      else rerunRealTimeEffect (st\<lparr>refreshInterval := i\<rparr>))"

definition setIsUserAuthenticated :: "bool \<Rightarrow> page_state \<Rightarrow> page_state" where
  "setIsUserAuthenticated b st =
     (if b = isUserAuthenticated st then st
      else rerunRealTimeEffect (st\<lparr>isUserAuthenticated := b\<rparr>))"

definition unmount :: "page_state \<Rightarrow> page_state" where
  "unmount st = stopRealTimeUpdates st"

text \<open>
  The outcome of one \<open>fetchStockSymbols\<close> call: the response, or the value thrown.
\<close>

datatype fetch_outcome = FetchOk StockSymbolsResponse | FetchFail js_error

text \<open>
  \<open>refreshStockData\<close>, run by the callback of timer \<open>t\<close>. It returns the new state
  and the error it rethrows, if any. On success it replaces the rows, takes the
  pagination when the response has one, stamps the time, increments the counter with
  the functional update \<open>prev => prev + 1\<close>, and shows a notification when the
  counter of the captured render is positive (its text carries the time of day, which
  is left out here). The counter is a natural number here; the source's is a double,
  exact below \<open>2 ^ 53\<close>.
\<close>

definition refreshStockData ::
  "interval_timer \<Rightarrow> fetch_outcome \<Rightarrow> page_state \<Rightarrow> page_state \<times> js_error option" where
  "refreshStockData t out st =
     (let now = clock st;
          st1 = st\<lparr>fetchCalls := fetchCalls st @
                   [(page (captured_pagination t), limit (captured_pagination t))]\<rparr>
      in case out of
           FetchFail e \<Rightarrow> (st1, Some e)
         | FetchOk response \<Rightarrow>
             (let st2 = st1\<lparr>stockSymbols := data response\<rparr>;
                  st3 = (case response_pagination response of
                           None \<Rightarrow> st2 | Some p \<Rightarrow> st2\<lparr>pagination := p\<rparr>);
                  st4 = st3\<lparr>lastUpdateTime := Some now, lastUpdateRef := Some now,
                            updateCounter := updateCounter st3 + 1\<rparr>;
                  st5 = (if captured_updateCounter t > 0
                         then st4\<lparr>toasts := toasts st4 @
                                [\<lparr>toast_title = ''Data Updated'',
                                  toast_description = ''Stock prices refreshed'',
                                  destructive = False\<rparr>]\<rparr>
                         else st4)
              in (st5, None)))"

text \<open>
  The callback given to \<open>setInterval\<close>: \<open>try { await refreshStockData();
  setIsConnected(true) } catch { setIsConnected(false) }\<close>.
\<close>

definition tickCallback :: "interval_timer \<Rightarrow> fetch_outcome \<Rightarrow> page_state \<Rightarrow> page_state" where
  "tickCallback t out st =
     (case refreshStockData t out st of
        (st1, None) \<Rightarrow> st1\<lparr>isConnected := True\<rparr>
      | (st1, Some e) \<Rightarrow> st1\<lparr>isConnected := False\<rparr>)"

text \<open>
  A tick of the timer with handle \<open>h\<close>: the environment runs the callback only of a
  timer that is active.
\<close>

definition tick :: "nat \<Rightarrow> fetch_outcome \<Rightarrow> page_state \<Rightarrow> page_state" where
  "tick h out st =
     (case find (\<lambda>t. handle t = h) (intervals st) of
        None \<Rightarrow> st
      | Some t \<Rightarrow> tickCallback t out st)"

subsection \<open>The debounced search\<close>

text \<open>
  \<open>debounce(func, wait)\<close> returns a function that clears the timer its variable
  \<open>timeout\<close> names and sets a new one for \<open>func(...args)\<close> after \<open>wait\<close>
  milliseconds. Each screen holds one debounced function, made with \<open>wait = 300\<close>.
\<close>

definition clearTimeout :: "nat option \<Rightarrow> 'a timer_env_scheme \<Rightarrow> 'a timer_env_scheme" where
  "clearTimeout ho st =
     (case ho of
        None \<Rightarrow> st
      | Some h \<Rightarrow> st\<lparr>timeouts := filter (\<lambda>(k, due, a). k \<noteq> h) (timeouts st)\<rparr>)"

definition debounce :: "nat \<Rightarrow> string \<Rightarrow> 'a timer_env_scheme \<Rightarrow> 'a timer_env_scheme" where
  "debounce wait arg st =
     (let st1 = clearTimeout (timeout st) st;
          h = next_handle st1
      in st1\<lparr>timeouts := timeouts st1 @ [(h, clock st1 + wait, arg)],
              next_handle := Suc h,
              timeout := Some h\<rparr>)"

text \<open>
  The function that is debounced. \<open>srv\<close> is the remote \<open>searchStockSymbols\<close>: the
  result list, or the value thrown. Each call to it is logged in \<open>searchCalls\<close>, and
  its answer is taken at once. \<open>useCallback\<close> keeps the one debounced function for as
  long as \<open>toast\<close> is the same function, which is assumed throughout.
\<close>

definition searchCallback ::
  "(string \<Rightarrow> js_error + StockSymbol list) \<Rightarrow> string \<Rightarrow> page_state \<Rightarrow> page_state" where
  "searchCallback srv term st =
     (if length term < 2 then st\<lparr>searchResults := []\<rparr>
      else
        (let st1 = st\<lparr>isSearching := True, searchCalls := searchCalls st @ [term]\<rparr>
         in case srv term of
              Inr results \<Rightarrow> st1\<lparr>searchResults := results, isSearching := False\<rparr>
            | Inl e \<Rightarrow>
                st1\<lparr>toasts := toasts st1 @
                       [\<lparr>toast_title = ''Search Error'',
                         toast_description =
                           (case e of Error m \<Rightarrow> m
                            | NonError \<Rightarrow> ''Failed to search stock symbols''),
                         destructive = True\<rparr>],
                     searchResults := [],
                     isSearching := False\<rparr>))"

definition debouncedSearch :: "string \<Rightarrow> page_state \<Rightarrow> page_state" where
  "debouncedSearch term st = debounce 300 term st"

text \<open>
  Time passes: every pending timer that is due runs the debounced function \<open>func\<close> on
  its argument, in the order the timers were set, and is gone.
\<close>

definition fireTimer ::
  "(string \<Rightarrow> 'a timer_env_scheme \<Rightarrow> 'a timer_env_scheme) \<Rightarrow> nat \<times> nat \<times> string
     \<Rightarrow> 'a timer_env_scheme \<Rightarrow> 'a timer_env_scheme" where
  "fireTimer func x st =
     (case x of (h, t, a) \<Rightarrow> func a (st\<lparr>fired := fired st @ [a]\<rparr>))"

definition advanceTimers ::
  "(string \<Rightarrow> 'a timer_env_scheme \<Rightarrow> 'a timer_env_scheme) \<Rightarrow> nat
     \<Rightarrow> 'a timer_env_scheme \<Rightarrow> 'a timer_env_scheme" where
  "advanceTimers func d st =
     (let now = clock st + d;
          due = filter (\<lambda>(h, t, a). t \<le> now) (timeouts st);
          st1 = st\<lparr>clock := now,
                   timeouts := filter (\<lambda>(h, t, a). \<not> t \<le> now) (timeouts st)\<rparr>
      in foldl (\<lambda>s x. fireTimer func x s) st1 due)"

definition advance ::
  "(string \<Rightarrow> js_error + StockSymbol list) \<Rightarrow> nat \<Rightarrow> page_state \<Rightarrow> page_state" where
  "advance srv d st = advanceTimers (searchCallback srv) d st"

text \<open>
  The input's \<open>onChange\<close> sets \<open>searchQuery\<close>; when the value changed, the effect on
  \<open>[searchQuery, debouncedSearch]\<close> runs:
  \<open>if (searchQuery) debouncedSearch(searchQuery) else setSearchResults([])\<close>.
\<close>

definition setSearchQuery :: "string \<Rightarrow> page_state \<Rightarrow> page_state" where
  "setSearchQuery s st =
     (if s = searchQuery st then st
      else
        (let st1 = st\<lparr>searchQuery := s\<rparr>
         in if s \<noteq> [] then debouncedSearch s st1 else st1\<lparr>searchResults := []\<rparr>))"

text \<open>
  A burst of edits: each edit comes \<open>gap\<close> milliseconds after the one before it.
\<close>

fun typing ::
  "(string \<Rightarrow> js_error + StockSymbol list) \<Rightarrow> (nat \<times> string) list \<Rightarrow> page_state \<Rightarrow> page_state" where
  "typing srv [] st = st"
| "typing srv ((gap, s) # es) st = typing srv es (setSearchQuery s (advance srv gap st))"

text \<open>
  The bursts the quiet-period property is about, the input showing the text \<open>shown\<close>
  when the burst begins: the first edit sets the non-empty text \<open>s0\<close>, every later edit
  follows the one before it by less than the 300 ms quiet period and sets a non-empty
  text, and every edit changes the text.
\<close>

definition rapid_edits :: "string \<Rightarrow> string \<Rightarrow> (nat \<times> string) list \<Rightarrow> bool" where
  "rapid_edits shown s0 es =
     (s0 \<noteq> [] \<and> s0 \<noteq> shown \<and> list_all (\<lambda>(gap, s). gap < 300 \<and> s \<noteq> []) es
      \<and> distinct_adj (s0 # map snd es))"

subsection \<open>Events of a page session\<close>

datatype page_event =
    SetIsRealTimeEnabled bool
  | SetRefreshInterval RefreshInterval
  | SetIsUserAuthenticated bool
  | Tick nat fetch_outcome
  | SetSearchQuery string
  | Advance nat
  | Unmount

fun page_step ::
  "(string \<Rightarrow> js_error + StockSymbol list) \<Rightarrow> page_event \<Rightarrow> page_state \<Rightarrow> page_state" where
  "page_step srv (SetIsRealTimeEnabled b) st = setIsRealTimeEnabled b st"
| "page_step srv (SetRefreshInterval i) st = setRefreshInterval i st"
| "page_step srv (SetIsUserAuthenticated b) st = setIsUserAuthenticated b st"
| "page_step srv (Tick h out) st = tick h out st"
| "page_step srv (SetSearchQuery s) st = setSearchQuery s st"
| "page_step srv (Advance d) st = advance srv d st"
| "page_step srv Unmount st = unmount st"

fun page_run ::
  "(string \<Rightarrow> js_error + StockSymbol list) \<Rightarrow> page_event list \<Rightarrow> page_state \<Rightarrow> page_state" where
  "page_run srv [] st = st"
| "page_run srv (e # es) st = page_run srv es (page_step srv e st)"

subsection \<open>Invariants of the timers\<close>

text \<open>
  \<open>pending_inv\<close>: every pending one-shot timer is the one the debounced function's
  variable \<open>timeout\<close> names.
\<close>

definition pending_inv :: "'a timer_env_scheme \<Rightarrow> bool" where
  "pending_inv st = list_all (\<lambda>(h, t, a). timeout st = Some h) (timeouts st)"

text \<open>
  \<open>timer_inv\<close>: the only interval timer that can be active is the one whose handle
  \<open>intervalRef\<close> holds, and handles already given out are below the next one.
  \<open>refresh_inv\<close> adds that a timer is active only while real-time mode is enabled
  and the user is authenticated.
\<close>

definition timer_inv :: "page_state \<Rightarrow> bool" where
  "timer_inv st =
     (case intervalRef st of
        None \<Rightarrow> intervals st = []
      | Some h \<Rightarrow> map handle (intervals st) = [h] \<and> h < next_handle st)"

definition refresh_inv :: "page_state \<Rightarrow> bool" where
  "refresh_inv st =
     (timer_inv st \<and> (intervals st \<noteq> [] \<longrightarrow> isRealTimeEnabled st \<and> isUserAuthenticated st))"

subsection \<open>What the table shows\<close>

text \<open>
  \<open>const displayData = searchQuery && searchResults.length > 0 ? searchResults : stockSymbols\<close>
  and the card title \<open>searchQuery ? 'Search Results' : 'Stock Symbols'\<close>. A string is
  truthy when it is not empty.
\<close>

definition displayData :: "page_state \<Rightarrow> StockSymbol list" where
  "displayData st =
     (if searchQuery st \<noteq> [] \<and> length (searchResults st) > 0
      then searchResults st else stockSymbols st)"

definition tableHeading :: "page_state \<Rightarrow> string" where
  "tableHeading st = (if searchQuery st \<noteq> [] then ''Search Results'' else ''Stock Symbols'')"

definition example_stock :: StockSymbol where
  "example_stock = \<lparr> stock_id = Some ''s1'', stock_id_alt = None, symbol = ''TCS'',
     name = ''Tata Consultancy'', exchange = ''NSE'', currentPrice = ''150.00'',
     previousPrice = ''140.00'' \<rparr>"

text \<open>A remote search that answers every term with one record.\<close>

definition example_server :: "string \<Rightarrow> js_error + StockSymbol list" where
  "example_server term = Inr [example_stock]"

section \<open>The tip form dialog\<close>

subsection \<open>Numbers, \<open>parseFloat\<close> and \<open>toFixed\<close>\<close>

text \<open>
  Strings are lists of 8-bit characters, read as the code units below 256. A number is
  an IEEE 754 double: \<open>NaN\<close>, an infinity, the negative zero, or a finite value
  \<open>Finite r\<close> with \<open>r\<close> the rational the double stands for (\<open>Finite 0\<close> is the
  positive zero).
\<close>

datatype number = NaN | Finite rat | NegZero | PosInfinity | NegInfinity

function bit_length :: "int \<Rightarrow> int" where
  "bit_length n = (if n \<le> 0 then 0 else 1 + bit_length (n div 2))"
  by pat_completeness auto
termination
  by (relation "measure nat") auto

declare bit_length.simps [simp del]

definition pow2 :: "int \<Rightarrow> rat" where
  "pow2 e = (if 0 \<le> e then 2 ^ nat e else 1 / 2 ^ nat (- e))"

text \<open>
  For \<open>x > 0\<close>, \<open>floor_log2 x\<close> is the \<open>e\<close> with \<open>2 ^ e \<le> x < 2 ^ (e + 1)\<close>.
\<close>

definition floor_log2 :: "rat \<Rightarrow> int" where
  "floor_log2 x =
     (if 1 \<le> x then bit_length \<lfloor>x\<rfloor> - 1
      else - bit_length (\<lceil>1 / x\<rceil> - 1))"

definition round_half_even :: "rat \<Rightarrow> int" where
  "round_half_even y =
     (let f = \<lfloor>y\<rfloor>; d = y - of_int f
      in if d < 1 / 2 then f
         else if 1 / 2 < d then f + 1
         else if even f then f else f + 1)"

text \<open>
  Rounding a rational to the nearest double, ties to the even significand: 53 bits of
  significand for a normal number, multiples of \<open>2 ^ - 1074\<close> below \<open>2 ^ - 1022\<close>,
  an infinity from \<open>2 ^ 1024\<close> on, a zero of the value's sign when the value rounds
  to nothing.
\<close>

definition round_double :: "rat \<Rightarrow> number" where
  "round_double x =
     (if x = 0 then Finite 0
      else
        (let a = \<bar>x\<bar>;
             q = pow2 (max (floor_log2 a) (- 1022) - 52);
             m = of_int (round_half_even (a / q)) * q
         in if 2 ^ 1024 \<le> m then (if x < 0 then NegInfinity else PosInfinity)
            else if m = 0 then (if x < 0 then NegZero else Finite 0)
            else Finite (if x < 0 then - m else m)))"

definition is_negative :: "number \<Rightarrow> bool" where
  "is_negative x =
     (case x of NaN \<Rightarrow> False | Finite r \<Rightarrow> r < 0 | NegZero \<Rightarrow> True
      | PosInfinity \<Rightarrow> False | NegInfinity \<Rightarrow> True)"

definition js_neg :: "number \<Rightarrow> number" where
  "js_neg x =
     (case x of NaN \<Rightarrow> NaN | Finite r \<Rightarrow> (if r = 0 then NegZero else Finite (- r))
      | NegZero \<Rightarrow> Finite 0 | PosInfinity \<Rightarrow> NegInfinity | NegInfinity \<Rightarrow> PosInfinity)"

definition finite_value :: "number \<Rightarrow> rat option" where
  "finite_value x =
     (case x of Finite r \<Rightarrow> Some r | NegZero \<Rightarrow> Some 0 | _ \<Rightarrow> None)"

definition signed_zero :: "bool \<Rightarrow> number" where
  "signed_zero neg = (if neg then NegZero else Finite 0)"

definition signed_infinity :: "bool \<Rightarrow> number" where
  "signed_infinity neg = (if neg then NegInfinity else PosInfinity)"

text \<open>
  The operators \<open>-\<close>, \<open>*\<close> and \<open>/\<close> on doubles: the exact result, rounded; the
  special cases of the infinities, the zeros and \<open>NaN\<close> as IEEE 754 has them.
\<close>

definition js_sub :: "number \<Rightarrow> number \<Rightarrow> number" where
  "js_sub x y =
     (if x = NaN \<or> y = NaN then NaN
      else
        (case (finite_value x, finite_value y) of
           (Some a, Some b) \<Rightarrow>
             if a - b = 0 then signed_zero (x = NegZero \<and> y = Finite 0)
             else round_double (a - b)
         | (Some a, None) \<Rightarrow> js_neg y
         | (None, Some b) \<Rightarrow> x
         | (None, None) \<Rightarrow> if x = y then NaN else x))"

definition js_mul :: "number \<Rightarrow> number \<Rightarrow> number" where
  "js_mul x y =
     (if x = NaN \<or> y = NaN then NaN
      else
        (case (finite_value x, finite_value y) of
           (Some a, Some b) \<Rightarrow>
             if a * b = 0 then signed_zero (is_negative x \<noteq> is_negative y)
             else round_double (a * b)
         | (Some a, None) \<Rightarrow>
             if a = 0 then NaN else signed_infinity (is_negative x \<noteq> is_negative y)
         | (None, Some b) \<Rightarrow>
             if b = 0 then NaN else signed_infinity (is_negative x \<noteq> is_negative y)
         | (None, None) \<Rightarrow> signed_infinity (is_negative x \<noteq> is_negative y)))"

definition js_div :: "number \<Rightarrow> number \<Rightarrow> number" where
  "js_div x y =
     (if x = NaN \<or> y = NaN then NaN
      else
        (case (finite_value x, finite_value y) of
           (Some a, Some b) \<Rightarrow>
             if b = 0 then
               (if a = 0 then NaN else signed_infinity (is_negative x \<noteq> is_negative y))
             else if a = 0 then signed_zero (is_negative x \<noteq> is_negative y)
             else round_double (a / b)
         | (Some a, None) \<Rightarrow> signed_zero (is_negative x \<noteq> is_negative y)
         | (None, Some b) \<Rightarrow> signed_infinity (is_negative x \<noteq> is_negative y)
         | (None, None) \<Rightarrow> NaN))"

text \<open>The comparison \<open>x > 0\<close>.\<close>

definition js_gt0 :: "number \<Rightarrow> bool" where
  "js_gt0 x = (case x of Finite r \<Rightarrow> 0 < r | PosInfinity \<Rightarrow> True | _ \<Rightarrow> False)"

definition is_digit :: "char \<Rightarrow> bool" where
  "is_digit c = (48 \<le> (of_char c :: nat) \<and> (of_char c :: nat) \<le> 57)"

definition is_space :: "char \<Rightarrow> bool" where
  "is_space c = ((of_char c :: nat) \<in> {9, 10, 11, 12, 13, 32, 160})"

fun digits_value :: "string \<Rightarrow> int \<Rightarrow> int" where
  "digits_value [] acc = acc"
| "digits_value (c # cs) acc = digits_value cs (10 * acc + (of_char c - 48))"

text \<open>
  The exponent part of a decimal literal: \<open>e\<close> or \<open>E\<close>, an optional sign and at least
  one digit. An incomplete exponent is not part of the literal.
\<close>

definition exponent_part :: "string \<Rightarrow> int" where
  "exponent_part s =
     (case s of
        [] \<Rightarrow> 0
      | c # r \<Rightarrow>
          if c = CHR ''e'' \<or> c = CHR ''E'' then
            (case r of
               [] \<Rightarrow> 0
             | d # r' \<Rightarrow>
                 if d = CHR ''-'' then - digits_value (takeWhile is_digit r') 0
                 else if d = CHR ''+'' then digits_value (takeWhile is_digit r') 0
                 else digits_value (takeWhile is_digit r) 0)
          else 0)"

definition scale10 :: "rat \<Rightarrow> int \<Rightarrow> rat" where
  "scale10 m e = (if 0 \<le> e then m * 10 ^ nat e else m / 10 ^ nat (- e))"

text \<open>
  \<open>parseFloat\<close>: leading white space is skipped, then a sign, then \<open>Infinity\<close> or
  the longest prefix that is a decimal literal, whose value is rounded to a double;
  \<open>NaN\<close> when there is neither.
\<close>

definition unsigned_literal :: "string \<Rightarrow> rat option" where
  "unsigned_literal s =
     (let ip = takeWhile is_digit s;
          r = dropWhile is_digit s;
          fp = (case r of [] \<Rightarrow> [] | c # r' \<Rightarrow>
                  if c = CHR ''.'' then takeWhile is_digit r' else []);
          r2 = (case r of [] \<Rightarrow> [] | c # r' \<Rightarrow>
                  if c = CHR ''.'' then dropWhile is_digit r' else r)
      in if ip = [] \<and> fp = [] then None
         else Some (scale10 (of_int (digits_value (ip @ fp) 0) / 10 ^ length fp)
                      (exponent_part r2)))"

definition unsigned_number :: "string \<Rightarrow> number" where
  "unsigned_number s =
     (if take 8 s = ''Infinity'' then PosInfinity
      else (case unsigned_literal s of None \<Rightarrow> NaN | Some v \<Rightarrow> round_double v))"

definition parseFloat :: "string \<Rightarrow> number" where
  "parseFloat s =
     (case dropWhile is_space s of
        [] \<Rightarrow> NaN
      | c # r \<Rightarrow>
          if c = CHR ''-'' then js_neg (unsigned_number r)
          else if c = CHR ''+'' then unsigned_number r
          else unsigned_number (c # r))"

definition digit_char :: "int \<Rightarrow> char" where
  "digit_char d = ''0123456789'' ! nat (d mod 10)"

function show_int :: "int \<Rightarrow> string" where
  "show_int n =
     (if n < 10 then [digit_char n]
      else show_int (n div 10) @ [digit_char (n mod 10)])"
  by pat_completeness auto
termination
  by (relation "measure nat") auto

declare show_int.simps [simp del]

text \<open>
  The string of a double from \<open>10 ^ 21\<close> on (\<open>Number::toString\<close>): the fewest
  digits \<open>s\<close> (\<open>k\<close> of them) with a decimal exponent \<open>n\<close> such that
  \<open>s * 10 ^ (n - k)\<close> rounds to the double; among several, the nearest, and the even
  one on a tie. It is printed in exponent form.
\<close>

definition digit_candidates :: "rat \<Rightarrow> nat \<Rightarrow> nat \<Rightarrow> (rat \<times> int \<times> nat) list" where
  "digit_candidates a k n =
     (let scale = scale10 1 (int n - int k);
          lo = \<lfloor>a / scale\<rfloor>
      in map (\<lambda>s. (\<bar>of_int s * scale - a\<bar>, s, n))
           (filter (\<lambda>s. 10 ^ (k - 1) \<le> s \<and> s < 10 ^ k
                        \<and> round_double (of_int s * scale) = Finite a)
              [lo, lo + 1]))"

definition better ::
  "rat \<times> int \<times> nat \<Rightarrow> rat \<times> int \<times> nat \<Rightarrow> rat \<times> int \<times> nat" where
  "better c d =
     (if fst d < fst c \<or> (fst d = fst c \<and> even (fst (snd d)) \<and> odd (fst (snd c)))
      then d else c)"

definition shortest_digits :: "rat \<Rightarrow> (nat \<times> int \<times> nat) option" where
  "shortest_digits a =
     (let d = length (show_int \<lfloor>a\<rfloor>)
      in map_option (\<lambda>k. case digit_candidates a k d @ digit_candidates a k (d + 1) of
                              c # cs \<Rightarrow> (k, snd (foldl better c cs)))
           (find (\<lambda>k. digit_candidates a k d @ digit_candidates a k (d + 1) \<noteq> [])
              [1..<18]))"

definition exponent_form :: "rat \<Rightarrow> string" where
  "exponent_form a =
     (case shortest_digits a of
        None \<Rightarrow> []
      | Some (k, s, n) \<Rightarrow>
          (case show_int s of
             [] \<Rightarrow> []
           | c # cs \<Rightarrow>
               (if cs = [] then [c] else c # ''.'' @ cs) @ ''e+'' @ show_int (int n - 1)))"

text \<open>
  \<open>x.toFixed(2)\<close>: \<open>NaN\<close> and the infinities print their names. Otherwise the
  sign, then, below \<open>10 ^ 21\<close>, the integer \<open>n\<close> nearest to \<open>100 * |x|\<close> (the
  larger one on a tie) printed with two digits after the point, and from \<open>10 ^ 21\<close>
  on the exponent form. The rounding is on the exact value of the double.
\<close>

definition toFixed2 :: "number \<Rightarrow> string" where
  "toFixed2 x =
     (case x of
        NaN \<Rightarrow> ''NaN''
      | PosInfinity \<Rightarrow> ''Infinity''
      | NegInfinity \<Rightarrow> ''-Infinity''
      | NegZero \<Rightarrow> ''0.00''
      | Finite r \<Rightarrow>
          (if r < 0 then ''-'' else []) @
          (if 10 ^ 21 \<le> \<bar>r\<bar> then exponent_form \<bar>r\<bar>
           else
             (let n = \<lfloor>\<bar>r\<bar> * 100 + 1 / 2\<rfloor>
              in show_int (n div 100) @ ''.''
                   @ [digit_char (n mod 100 div 10), digit_char (n mod 10)])))"

text \<open>
  The body shared by the two auto-calculation effects: both prices are parsed, and when
  both are greater than zero the percentage
  \<open>((price - currentPrice) / currentPrice * 100).toFixed(2)\<close> with \<open>%\<close> appended is
  the value to set; otherwise nothing is set.
\<close>

definition pricePercentage :: "string \<Rightarrow> string \<Rightarrow> string option" where
  "pricePercentage current entered =
     (let cur = parseFloat current; price = parseFloat entered
      in if js_gt0 cur \<and> js_gt0 price
         then Some (toFixed2 (js_mul (js_div (js_sub price cur) cur) (Finite 100)) @ ''%'')
         else None)"

text \<open>A string value that may be absent; it is truthy when present and not empty.\<close>

definition truthy :: "string option \<Rightarrow> bool" where
  "truthy v = (case v of None \<Rightarrow> False | Some s \<Rightarrow> s \<noteq> [])"

definition or_else :: "string option \<Rightarrow> string \<Rightarrow> string" where
  "or_else v d = (case v of None \<Rightarrow> d | Some s \<Rightarrow> if s \<noteq> [] then s else d)"

subsection \<open>Form values and the validation schema\<close>

text \<open>
  The values of the form (\<open>TipFormValues\<close>). A field that is absent from a payload is
  \<open>None\<close>. The confidence score is a number.
\<close>

record TipFormValues =
  title :: "string option"
  stockId :: "string option"
  stockSymbol :: "string option"
  stockName :: "string option"
  category :: "string option"
  content :: "string option"
  description :: "string option"
  status :: "string option"
  action :: "string option"
  buyRange :: "string option"
  targetPrice :: "string option"
  targetPercentage :: "string option"
  addMoreAt :: "string option"
  exitPrice :: "string option"
  exitStatus :: "string option"
  exitStatusPercentage :: "string option"
  horizon :: "string option"
  tipUrl :: "string option"
  analysistConfidence :: "rat option"

datatype field =
    Title | StockId | StockSymbolField | StockName | Category | Content | Description
  | Status | Action | BuyRange | TargetPrice | TargetPercentage | AddMoreAt | ExitPrice
  | ExitStatus | ExitStatusPercentage | Horizon | TipUrl | AnalysistConfidence

type_synonym issue = "field \<times> string"

text \<open>
  The checks of the schema library as the schema uses them. \<open>z.string()\<close> reports
  \<open>Required\<close> for an absent value and nothing else for it; on a string every
  \<open>min\<close>, \<open>max\<close> and \<open>refine\<close> check that fails reports its message.
  \<open>z.string().optional()\<close> accepts an absent value and any string. \<open>z.enum\<close>
  reports its \<open>required_error\<close> for an absent value and the library's message (here
  without the list of expected values) for a value outside the enumeration.
\<close>

definition z_string :: "field \<Rightarrow> string option \<Rightarrow> (string \<Rightarrow> issue list) \<Rightarrow> issue list" where
  "z_string f v checks = (case v of None \<Rightarrow> [(f, ''Required'')] | Some s \<Rightarrow> checks s)"

definition z_min :: "field \<Rightarrow> nat \<Rightarrow> string \<Rightarrow> string \<Rightarrow> issue list" where
  "z_min f n msg s = (if length s < n then [(f, msg)] else [])"

definition z_max :: "field \<Rightarrow> nat \<Rightarrow> string \<Rightarrow> string \<Rightarrow> issue list" where
  "z_max f n msg s = (if n < length s then [(f, msg)] else [])"

definition z_refine :: "field \<Rightarrow> (string \<Rightarrow> bool) \<Rightarrow> string \<Rightarrow> string \<Rightarrow> issue list" where
  "z_refine f ok msg s = (if ok s then [] else [(f, msg)])"

definition z_optional_string :: "field \<Rightarrow> string option \<Rightarrow> issue list" where
  "z_optional_string f v = []"

definition z_enum :: "field \<Rightarrow> string list \<Rightarrow> string \<Rightarrow> string option \<Rightarrow> issue list" where
  "z_enum f allowed required_error v =
     (case v of
        None \<Rightarrow> [(f, required_error)]
      | Some s \<Rightarrow> if s \<in> set allowed then [] else [(f, ''Invalid enum value'')])"

text \<open>
  The pattern of \<open>buyRange\<close>,
  \<open>/^\d+(\.\d+)?\s*-\s*\d+(\.\d+)?$/\<close>. \<open>number_prefix\<close> matches
  \<open>\d+(\.\d+)?\<close> at the start of a string and returns the rest. The character classes
  that may follow one another are disjoint, so the longest match is the only one that
  can lead to a match of the whole pattern.
\<close>

definition number_prefix :: "string \<Rightarrow> string option" where
  "number_prefix s =
     (if takeWhile is_digit s = [] then None
      else
        (case dropWhile is_digit s of
           [] \<Rightarrow> Some []
         | c # r \<Rightarrow>
             if c = CHR ''.'' \<and> takeWhile is_digit r \<noteq> [] then Some (dropWhile is_digit r)
             else Some (c # r)))"

definition rangePattern :: "string \<Rightarrow> bool" where
  "rangePattern s =
     (case number_prefix s of
        None \<Rightarrow> False
      | Some r \<Rightarrow>
          (case dropWhile is_space r of
             [] \<Rightarrow> False
           | c # r' \<Rightarrow>
               c = CHR ''-'' \<and> number_prefix (dropWhile is_space r') = Some []))"

text \<open>
  \<open>tipSchema\<close>, field by field in the order of the source. \<open>isUrl\<close> is the
  platform's URL parser: \<open>isUrl s\<close> holds when \<open>new URL(s)\<close> does not throw. The
  result is the list of issues; a payload passes validation when the list is empty.
\<close>

definition tipSchema :: "(string \<Rightarrow> bool) \<Rightarrow> TipFormValues \<Rightarrow> issue list" where
  "tipSchema isUrl v =
     z_string Title (title v) (\<lambda>s.
         z_min Title 1 ''Title is required'' s
       @ z_min Title 5 ''Title must be at least 5 characters'' s
       @ z_max Title 200 ''Title must be less than 200 characters'' s)
   @ z_string StockId (stockId v) (z_min StockId 1 ''Stock symbol is required'')
   @ z_string StockSymbolField (stockSymbol v)
       (z_min StockSymbolField 1 ''Stock symbol is required'')
   @ z_optional_string StockName (stockName v)
   @ z_enum Category [''basic'', ''premium'', ''social_media''] ''Category is required''
       (category v)
   @ z_string Content (content v) (\<lambda>s.
         z_min Content 1 ''Content is required'' s
       @ z_min Content 20 ''Content must be at least 20 characters'' s
       @ z_max Content 5000 ''Content must be less than 5000 characters'' s)
   @ z_string Description (description v) (\<lambda>s.
         z_min Description 1 ''Description is required'' s
       @ z_min Description 10 ''Description must be at least 10 characters'' s
       @ z_max Description 1000 ''Description must be less than 1000 characters'' s)
   @ z_enum Status [''Active'', ''Closed''] ''Status is required'' (status v)
   @ z_string Action (action v) (\<lambda>s.
         z_min Action 1 ''Action is required'' s
       @ z_refine Action
           (\<lambda>val. val \<in> set [''buy'', ''sell'', ''hold'', ''partial sell'',
                               ''partial profit'', ''add more''])
           ''Please select a valid action'' s)
   @ z_string BuyRange (buyRange v) (\<lambda>s.
         z_min BuyRange 1 ''Buy range is required'' s
       @ z_refine BuyRange rangePattern
           ''Buy range must be in format: 100-200 or 100.50-200.75'' s)
   @ z_optional_string TargetPrice (targetPrice v)
   @ z_optional_string TargetPercentage (targetPercentage v)
   @ z_optional_string AddMoreAt (addMoreAt v)
   @ z_optional_string ExitPrice (exitPrice v)
   @ z_optional_string ExitStatus (exitStatus v)
   @ z_optional_string ExitStatusPercentage (exitStatusPercentage v)
   @ z_string Horizon (horizon v) (\<lambda>s.
         z_min Horizon 1 ''Horizon is required'' s
       @ z_refine Horizon (\<lambda>val. val \<in> set [''Short Term'', ''Medium Term'', ''Long Term''])
           ''Please select a valid time horizon'' s)
   @ z_string TipUrl (tipUrl v) (\<lambda>s.
         z_min TipUrl 1 ''PDF link is required'' s
       @ z_refine TipUrl isUrl ''Please enter a valid URL'' s)
   @ (case analysistConfidence v of
        None \<Rightarrow> [(AnalysistConfidence, ''Required'')]
      | Some n \<Rightarrow>
          (if n < 1 then [(AnalysistConfidence, ''Confidence score is required'')] else [])
        @ (if 10 < n then [(AnalysistConfidence, ''Confidence score must be between 1-10'')]
           else [])
        @ (if of_int \<lfloor>n\<rfloor> = n then []
           else [(AnalysistConfidence, ''Confidence score must be a whole number'')]))"

text \<open>
  The fields the form shows for an action: the target price and percentage are shown,
  with the mark of a required field, for \<open>buy\<close> and \<open>sell\<close> only.
\<close>

definition showTargetFields :: "TipFormValues \<Rightarrow> bool" where
  "showTargetFields v = (action v = Some ''buy'' \<or> action v = Some ''sell'')"

definition showExitFields :: "TipFormValues \<Rightarrow> bool" where
  "showExitFields v = (action v = Some ''partial sell'' \<or> action v = Some ''partial profit'')"

definition showAddMoreField :: "TipFormValues \<Rightarrow> bool" where
  "showAddMoreField v =
     (action v = Some ''buy'' \<or> action v = Some ''hold'' \<or> action v = Some ''add more'')"

text \<open>The \<open>defaultValues\<close> given to \<open>useForm\<close>.\<close>

definition blank_form :: TipFormValues where
  "blank_form = \<lparr>
     title = Some [], stockId = Some [], stockSymbol = Some [], stockName = Some [],
     category = Some ''basic'', content = Some [], description = Some [],
     status = Some ''Active'', action = Some [], buyRange = Some [],
     targetPrice = Some [], targetPercentage = Some [], addMoreAt = Some [],
     exitPrice = Some [], exitStatus = Some [], exitStatusPercentage = Some [],
     horizon = Some ''Long Term'', tipUrl = Some [], analysistConfidence = Some 5 \<rparr>"

text \<open>A payload in which every field the schema checks is valid.\<close>

definition example_payload :: "string option \<Rightarrow> string option \<Rightarrow> TipFormValues" where
  "example_payload act target = \<lparr>
     title = Some ''TCS Investment Tip'', stockId = Some ''s1'', stockSymbol = Some ''TCS'',
     stockName = Some ''Tata Consultancy'', category = Some ''basic'',
     content = Some ''Accumulate on dips for the long term.'',
     description = Some ''Steady compounder'', status = Some ''Active'', action = act,
     buyRange = Some ''100-200'', targetPrice = target, targetPercentage = None,
     addMoreAt = None, exitPrice = None, exitStatus = None, exitStatusPercentage = None,
     horizon = Some ''Long Term'', tipUrl = Some ''https://example.com/report.pdf'',
     analysistConfidence = Some 5 \<rparr>"

subsection \<open>The dialog's state\<close>

text \<open>
  An existing tip, as the dialog reads it from \<open>initialData\<close>: every field may be
  absent; the content is a list of key/value blocks.
\<close>

record Tip =
  tip_id :: "string option"
  tip_title :: "string option"
  tip_stockId :: "string option"
  tip_stockSymbol :: "string option"
  tip_stockName :: "string option"
  tip_category :: "string option"
  tip_content :: "(string \<times> string) list option"
  tip_description :: "string option"
  tip_status :: "string option"
  tip_action :: "string option"
  tip_buyRange :: "string option"
  tip_targetPrice :: "string option"
  tip_targetPercentage :: "string option"
  tip_addMoreAt :: "string option"
  tip_exitPrice :: "string option"
  tip_exitStatus :: "string option"
  tip_exitStatusPercentage :: "string option"
  tip_horizon :: "string option"
  tip_tipUrl :: "string option"
  tip_analysistConfidence :: "rat option"

text \<open>The request built by \<open>onValidSubmit\<close> (\<open>CreateTipRequest\<close>).\<close>

record CreateTipRequest =
  req_title :: "string option"
  req_stockId :: string
  req_stockSymbol :: "string option"
  req_stockName :: string
  req_category :: "string option"
  req_content :: "(string \<times> string option) list"
  req_description :: "string option"
  req_status :: "string option"
  req_action :: "string option"
  req_buyRange :: "string option"
  req_targetPrice :: "string option"
  req_targetPercentage :: "string option"
  req_addMoreAt :: "string option"
  req_tipUrl :: "string option"
  req_exitPrice :: "string option"
  req_exitStatus :: "string option"
  req_exitStatusPercentage :: "string option"
  req_horizon :: string
  req_analysistConfidence :: "rat option"
  req_downloadLinks :: "(string \<times> string) list option"

text \<open>
  The state of one mounted \<open>TipFormDialog\<close>, on top of the timer environment of its
  debounced search: the props \<open>open\<close> and \<open>initialData\<close>, the \<open>useState\<close> cells,
  the form's values and default values, the module-level \<open>stockDetailsCache\<close>, the
  \<open>fetchStockSymbolById\<close> calls in flight (each with the tip its closure captured),
  and the logs of the calls to \<open>fetchStockSymbolById\<close>, \<open>onOpenChange\<close>,
  \<open>updateTip\<close> and \<open>onSubmit\<close>.
\<close>

record dialog_state = timer_env +
  is_open :: bool
  initialData :: "Tip option"
  searchTerm :: string
  dlg_searchResults :: "StockSymbol list"
  dlg_isSearching :: bool
  showResults :: bool
  selectedStockDetails :: "StockSymbol option"
  focusedIndex :: int
  isAutoCalcTarget :: bool
  isAutoCalcExit :: bool
  formValues :: TipFormValues
  defaultValues :: TipFormValues
  stockDetailsCache :: "string \<Rightarrow> StockSymbol option"
  pendingDetails :: "Tip list"
  detailCalls :: "string list"
  openChangeCalls :: "bool list"
  updateTipCalls :: "(string \<times> CreateTipRequest) list"
  onSubmitCalls :: "CreateTipRequest list"

text \<open>The state at the first render, before any effect has run.\<close>

definition first_render :: dialog_state where
  "first_render = \<lparr>
     timeout = None, timeouts = [], next_handle = 1, clock = 0, toasts = [],
     searchCalls = [], fired = [],
     is_open = False, initialData = None, searchTerm = [], dlg_searchResults = [],
     dlg_isSearching = False, showResults = False, selectedStockDetails = None,
     focusedIndex = - 1, isAutoCalcTarget = True, isAutoCalcExit = True,
     formValues = blank_form, defaultValues = blank_form,
     stockDetailsCache = Map.empty, pendingDetails = [], detailCalls = [],
     openChangeCalls = [], updateTipCalls = [], onSubmitCalls = [] \<rparr>"

subsection \<open>The auto-calculation effects\<close>

text \<open>
  The effect on \<open>[watchedTargetPrice, selectedStockDetails, isAutoCalcTarget]\<close>:
  \<open>if (isAutoCalcTarget && selectedStockDetails && watchedTargetPrice)\<close>, parse the
  stock's current price and the target price, and when both are positive set
  \<open>targetPercentage\<close>. The effect on the exit price is the same on its own fields.
\<close>

definition autoCalcTargetEffect :: "dialog_state \<Rightarrow> dialog_state" where
  "autoCalcTargetEffect st =
     (case selectedStockDetails st of
        None \<Rightarrow> st
      | Some stock \<Rightarrow>
          if isAutoCalcTarget st \<and> truthy (targetPrice (formValues st)) then
            (case pricePercentage (currentPrice stock)
                    (or_else (targetPrice (formValues st)) []) of
               Some percentage \<Rightarrow>
                 st\<lparr>formValues := (formValues st)\<lparr>targetPercentage := Some percentage\<rparr>\<rparr>
             | None \<Rightarrow> st)
          else st)"

definition autoCalcExitEffect :: "dialog_state \<Rightarrow> dialog_state" where
  "autoCalcExitEffect st =
     (case selectedStockDetails st of
        None \<Rightarrow> st
      | Some stock \<Rightarrow>
          if isAutoCalcExit st \<and> truthy (exitPrice (formValues st)) then
            (case pricePercentage (currentPrice stock)
                    (or_else (exitPrice (formValues st)) []) of
               Some percentage \<Rightarrow>
                 st\<lparr>formValues := (formValues st)\<lparr>exitStatusPercentage := Some percentage\<rparr>\<rparr>
             | None \<Rightarrow> st)
          else st)"

text \<open>
  Entering a price: the input writes the form value, and when the watched value changed
  the effect runs.
\<close>

definition enterTargetPrice :: "string \<Rightarrow> dialog_state \<Rightarrow> dialog_state" where
  "enterTargetPrice v st =
     (let st1 = st\<lparr>formValues := (formValues st)\<lparr>targetPrice := Some v\<rparr>\<rparr>
      in if targetPrice (formValues st) = Some v then st1 else autoCalcTargetEffect st1)"

definition enterExitPrice :: "string \<Rightarrow> dialog_state \<Rightarrow> dialog_state" where
  "enterExitPrice v st =
     (let st1 = st\<lparr>formValues := (formValues st)\<lparr>exitPrice := Some v\<rparr>\<rparr>
      in if exitPrice (formValues st) = Some v then st1 else autoCalcExitEffect st1)"

definition toggleAutoCalcTarget :: "dialog_state \<Rightarrow> dialog_state" where
  "toggleAutoCalcTarget st = autoCalcTargetEffect (st\<lparr>isAutoCalcTarget := \<not> isAutoCalcTarget st\<rparr>)"

definition toggleAutoCalcExit :: "dialog_state \<Rightarrow> dialog_state" where
  "toggleAutoCalcExit st = autoCalcExitEffect (st\<lparr>isAutoCalcExit := \<not> isAutoCalcExit st\<rparr>)"

subsection \<open>The dialog's debounced search\<close>

definition dlg_searchCallback ::
  "(string \<Rightarrow> js_error + StockSymbol list) \<Rightarrow> string \<Rightarrow> dialog_state \<Rightarrow> dialog_state" where
  "dlg_searchCallback srv term st =
     (if length term < 2 then st\<lparr>dlg_searchResults := [], showResults := False\<rparr>
      else
        (let st1 = st\<lparr>dlg_isSearching := True, searchCalls := searchCalls st @ [term]\<rparr>
         in case srv term of
              Inr results \<Rightarrow>
                st1\<lparr>dlg_searchResults := results, showResults := True, focusedIndex := - 1,
                     dlg_isSearching := False\<rparr>
            | Inl e \<Rightarrow>
                st1\<lparr>toasts := toasts st1 @
                       [\<lparr>toast_title = ''Search Error'',
                         toast_description =
                           (case e of Error m \<Rightarrow> m | NonError \<Rightarrow> ''Failed to search stocks''),
                         destructive = True\<rparr>],
                     dlg_searchResults := [],
                     showResults := False,
                     dlg_isSearching := False\<rparr>))"

definition dlg_advance ::
  "(string \<Rightarrow> js_error + StockSymbol list) \<Rightarrow> nat \<Rightarrow> dialog_state \<Rightarrow> dialog_state" where
  "dlg_advance srv d st = advanceTimers (dlg_searchCallback srv) d st"

text \<open>
  \<open>setSearchTerm\<close>, with the effect on \<open>[searchTerm, debouncedSearch]\<close> that runs
  when the value changed: \<open>debouncedSearch(searchTerm)\<close>, for an empty term too.
\<close>

definition setSearchTerm :: "string \<Rightarrow> dialog_state \<Rightarrow> dialog_state" where
  "setSearchTerm s st =
     (if s = searchTerm st then st else debounce 300 s (st\<lparr>searchTerm := s\<rparr>))"

text \<open>
  The dialog after its first effects: the search effect has called the debounced
  function with the empty term.
\<close>

definition initial_dialog :: dialog_state where
  "initial_dialog = debounce 300 [] first_render"

subsection \<open>Opening the dialog and the detail cache\<close>

text \<open>
  \<open>reset(values)\<close> of the form library replaces the values and the default values;
  \<open>reset()\<close> puts the values back to the default values.
\<close>

definition reset_form :: "TipFormValues option \<Rightarrow> dialog_state \<Rightarrow> dialog_state" where
  "reset_form vo st =
     (case vo of
        Some v \<Rightarrow> st\<lparr>formValues := v, defaultValues := v\<rparr>
      | None \<Rightarrow> st\<lparr>formValues := defaultValues st\<rparr>)"

text \<open>
  \<open>contentString\<close>: the value of the block with key \<open>main\<close>, else the value of the
  first block, else the empty string; empty when the content is not a list.
\<close>

definition contentString :: "Tip \<Rightarrow> string" where
  "contentString t =
     (case tip_content t of
        None \<Rightarrow> []
      | Some blocks \<Rightarrow>
          or_else (map_option snd (find (\<lambda>c. fst c = ''main'') blocks))
            (or_else (case blocks of [] \<Rightarrow> None | c # cs \<Rightarrow> Some (snd c)) []))"

definition formFromTip :: "Tip \<Rightarrow> TipFormValues" where
  "formFromTip t = \<lparr>
     title = Some (or_else (tip_title t) []),
     stockId = Some (or_else (tip_stockId t) []),
     stockSymbol = Some (or_else (tip_stockSymbol t) []),
     stockName = Some (or_else (tip_stockName t) []),
     category = Some (or_else (tip_category t) ''basic''),
     content = Some (contentString t),
     description = Some (or_else (tip_description t) []),
     status = Some (or_else (tip_status t) ''Active''),
     action = Some (or_else (tip_action t) []),
     buyRange = Some (or_else (tip_buyRange t) []),
     targetPrice = Some (or_else (tip_targetPrice t) []),
     targetPercentage = Some (or_else (tip_targetPercentage t) []),
     addMoreAt = Some (or_else (tip_addMoreAt t) []),
     exitPrice = Some (or_else (tip_exitPrice t) []),
     exitStatus = Some (or_else (tip_exitStatus t) []),
     exitStatusPercentage = Some (or_else (tip_exitStatusPercentage t) []),
     horizon = Some (or_else (tip_horizon t) ''Long Term''),
     tipUrl = Some (or_else (tip_tipUrl t) []),
     analysistConfidence =
       Some (case tip_analysistConfidence t of
               None \<Rightarrow> 5 | Some n \<Rightarrow> if n \<noteq> 0 then n else 5) \<rparr>"

text \<open>
  The effect on \<open>[open, initialData, reset]\<close>, as far as it runs before the first
  \<open>await\<close>. With a tip that has a stock id, the cache is looked up first: a hit
  selects the cached record, a miss calls \<open>fetchStockSymbolById\<close>. Then the form is
  reset to the tip's values. Without a tip the form is reset to the blank values and the
  selection and the search are cleared.
\<close>

definition openEffect :: "dialog_state \<Rightarrow> dialog_state" where
  "openEffect st =
     (if is_open st then
        (case initialData st of
           Some tip \<Rightarrow>
             reset_form (Some (formFromTip tip))
               (if truthy (tip_stockId tip) then
                  (case stockDetailsCache st (or_else (tip_stockId tip) []) of
                     Some stock \<Rightarrow> st\<lparr>selectedStockDetails := Some stock\<rparr>
                   | None \<Rightarrow>
                       st\<lparr>pendingDetails := pendingDetails st @ [tip],
                          detailCalls := detailCalls st @ [or_else (tip_stockId tip) []]\<rparr>)
                else st)
         | None \<Rightarrow>
             setSearchTerm []
               ((reset_form (Some blank_form) st)
                  \<lparr>selectedStockDetails := None, showResults := False\<rparr>))
      else st)"

definition openDialog :: "Tip option \<Rightarrow> dialog_state \<Rightarrow> dialog_state" where
  "openDialog tip st = openEffect (st\<lparr>is_open := True, initialData := tip\<rparr>)"

definition closeDialog :: "dialog_state \<Rightarrow> dialog_state" where
  "closeDialog st = openEffect (st\<lparr>is_open := False\<rparr>)"

text \<open>
  The record installed when the detail fetch fails: built from the tip, its current
  price the tip's target price, or \<open>0\<close> when that is absent or empty.
\<close>

definition fallbackStock :: "Tip \<Rightarrow> StockSymbol" where
  "fallbackStock tip = \<lparr>
     stock_id = tip_stockId tip, stock_id_alt = None,
     symbol = or_else (tip_stockSymbol tip) [],
     name = or_else (tip_stockName tip) [],
     exchange = [],
     currentPrice = or_else (tip_targetPrice tip) ''0'',
     previousPrice = ''0'' \<rparr>"

text \<open>
  The rest of \<open>fetchStockDetails\<close>, run when the call made for \<open>tip\<close> settles: on
  success the record is stored in the cache under the tip's stock id and selected; on
  failure the error is written to the console and the fallback record is selected.
\<close>

definition detailFetched :: "Tip \<Rightarrow> js_error + StockSymbol \<Rightarrow> dialog_state \<Rightarrow> dialog_state" where
  "detailFetched tip out st =
     (if tip \<in> set (pendingDetails st) then
        (let st1 = st\<lparr>pendingDetails := remove1 tip (pendingDetails st)\<rparr>
         in case out of
              Inr stock \<Rightarrow>
                st1\<lparr>stockDetailsCache :=
                       (stockDetailsCache st1)(or_else (tip_stockId tip) [] \<mapsto> stock),
                     selectedStockDetails := Some stock\<rparr>
            | Inl e \<Rightarrow> st1\<lparr>selectedStockDetails := Some (fallbackStock tip)\<rparr>)
      else st)"

subsection \<open>Selecting and clearing a stock\<close>

definition stockIdOf :: "StockSymbol \<Rightarrow> string" where
  "stockIdOf stock = or_else (stock_id stock) (or_else (stock_id_alt stock) [])"

definition handleStockSelect :: "StockSymbol \<Rightarrow> dialog_state \<Rightarrow> dialog_state" where
  "handleStockSelect stock st =
     (let st1 = st\<lparr>selectedStockDetails := Some stock, showResults := False\<rparr>;
          stockId' = stockIdOf stock;
          st2 = st1\<lparr>formValues := (formValues st1)
                   \<lparr>stockId := Some stockId', stockSymbol := Some (symbol stock),
                    stockName := Some (name stock)\<rparr>\<rparr>;
          st3 = (if stockId' \<noteq> []
                 then st2\<lparr>stockDetailsCache := (stockDetailsCache st2)(stockId' \<mapsto> stock)\<rparr>
                 else st2);
          st4 = (if \<not> truthy (title (formValues st3))
                 then st3\<lparr>formValues := (formValues st3)
                          \<lparr>title := Some (symbol stock @ '' Investment Tip'')\<rparr>\<rparr>
                 else st3)
      in setSearchTerm [] st4)"

definition handleStockClear :: "dialog_state \<Rightarrow> dialog_state" where
  "handleStockClear st =
     setSearchTerm []
       (st\<lparr>selectedStockDetails := None, showResults := False,
           formValues := (formValues st)
             \<lparr>stockId := Some [], stockSymbol := Some [], stockName := Some []\<rparr>\<rparr>)"

definition handleClickOutside :: "dialog_state \<Rightarrow> dialog_state" where
  "handleClickOutside st = st\<lparr>showResults := False, focusedIndex := - 1\<rparr>"

subsection \<open>Submitting the form\<close>

text \<open>
  The \<open>catch\<close> block of \<open>onValidSubmit\<close>: one destructive notification, nothing
  else.
\<close>

definition submitFailed :: "js_error \<Rightarrow> dialog_state \<Rightarrow> dialog_state" where
  "submitFailed e st =
     st\<lparr>toasts := toasts st @
          [\<lparr>toast_title = ''Error'',
            toast_description = (case e of Error m \<Rightarrow> m | NonError \<Rightarrow> ''Failed to save tip''),
            destructive = True\<rparr>]\<rparr>"

definition buildTipData ::
  "TipFormValues \<Rightarrow> StockSymbol option \<Rightarrow> string \<Rightarrow> CreateTipRequest" where
  "buildTipData vals sel stockId' = \<lparr>
     req_title = title vals,
     req_stockId = stockId',
     req_stockSymbol =
       (case sel of
          None \<Rightarrow> stockSymbol vals
        | Some s \<Rightarrow> if symbol s \<noteq> [] then Some (symbol s) else stockSymbol vals),
     req_stockName = (case sel of None \<Rightarrow> [] | Some s \<Rightarrow> name s),
     req_category = category vals,
     req_content = [(''main'', content vals)],
     req_description = description vals,
     req_status = status vals,
     req_action = action vals,
     req_buyRange = buyRange vals,
     req_targetPrice = targetPrice vals,
     req_targetPercentage = targetPercentage vals,
     req_addMoreAt = addMoreAt vals,
     req_tipUrl = tipUrl vals,
     req_exitPrice = exitPrice vals,
     req_exitStatus = exitStatus vals,
     req_exitStatusPercentage = exitStatusPercentage vals,
     req_horizon = or_else (horizon vals) ''Long Term'',
     req_analysistConfidence = analysistConfidence vals,
     req_downloadLinks =
       (if truthy (tipUrl vals) then Some [(''Analysis Report'', or_else (tipUrl vals) [])]
        else None) \<rparr>"

text \<open>
  The statements after the remote call has succeeded: the confirmation, then
  \<open>onOpenChange(false); reset(); setSelectedStockDetails(null); setSearchTerm("");
  setShowResults(false)\<close>.
\<close>

definition submitSucceeded :: "string \<Rightarrow> dialog_state \<Rightarrow> dialog_state" where
  "submitSucceeded msg st =
     setSearchTerm []
       ((reset_form None
           (st\<lparr>toasts := toasts st @
                 [\<lparr>toast_title = ''Success'', toast_description = msg, destructive = False\<rparr>],
               openChangeCalls := openChangeCalls st @ [False]\<rparr>))
          \<lparr>selectedStockDetails := None, showResults := False\<rparr>)"

text \<open>
  \<open>onValidSubmit\<close>. \<open>outcome\<close> is what the remote call does: \<open>None\<close> when it
  resolves, the value it rejects with otherwise. An existing tip (one with an
  \<open>_id\<close>) goes through \<open>updateTip\<close>, anything else through the \<open>onSubmit\<close> prop.
\<close>

definition onValidSubmit ::
  "TipFormValues \<Rightarrow> js_error option \<Rightarrow> dialog_state \<Rightarrow> dialog_state" where
  "onValidSubmit vals outcome st =
     (if selectedStockDetails st = None \<and> \<not> truthy (stockId vals)
      then submitFailed (Error ''Stock ID is missing'') st
      else
        (let stockId' =
               (case selectedStockDetails st of
                  None \<Rightarrow> or_else (stockId vals) []
                | Some s \<Rightarrow> or_else (stock_id s) (or_else (stockId vals) []))
         in if stockId' = [] then submitFailed (Error ''Stock ID is required'') st
            else
              (let tipData = buildTipData vals (selectedStockDetails st) stockId'
               in case (case initialData st of
                          None \<Rightarrow> None
                        | Some tip \<Rightarrow> if truthy (tip_id tip) then tip_id tip else None) of
                    Some existing \<Rightarrow>
                      (let st1 = st\<lparr>updateTipCalls := updateTipCalls st @ [(existing, tipData)]\<rparr>
                       in case outcome of
                            Some e \<Rightarrow> submitFailed e st1
                          | None \<Rightarrow> submitSucceeded ''Tip updated successfully'' st1)
                  | None \<Rightarrow>
                      (let st1 = st\<lparr>onSubmitCalls := onSubmitCalls st @ [tipData]\<rparr>
                       in case outcome of
                            Some e \<Rightarrow> submitFailed e st1
                          | None \<Rightarrow> submitSucceeded ''Tip created successfully'' st1))))"

text \<open>
  The form's \<open>onSubmit\<close>: \<open>handleSubmit(onValidSubmit)\<close> validates the values against
  the schema and calls \<open>onValidSubmit\<close> only when there is no issue.
  \<open>onValidSubmit\<close> catches whatever is thrown inside it, so the handler's own
  \<open>catch\<close> branch is not modelled.
\<close>

definition submitForm ::
  "(string \<Rightarrow> bool) \<Rightarrow> js_error option \<Rightarrow> dialog_state \<Rightarrow> dialog_state" where
  "submitForm isUrl outcome st =
     (if tipSchema isUrl (formValues st) = [] then onValidSubmit (formValues st) outcome st
      else st)"

subsection \<open>Events of a dialog session\<close>

text \<open>
  The handlers and effects of the dialog as events. The two auto-calculation effects
  depend on the selected record, which React compares by identity, so their runs are
  events of their own: any run React makes is one of these.
\<close>

datatype dialog_event =
    OpenDialog "Tip option"
  | CloseDialog
  | DetailFetched Tip "js_error + StockSymbol"
  | SetSearchTerm string
  | AdvanceDialog nat
  | StockSelect StockSymbol
  | StockClear
  | ClickOutside
  | EditForm "TipFormValues \<Rightarrow> TipFormValues"
  | EnterTargetPrice string
  | EnterExitPrice string
  | ToggleAutoCalcTarget
  | ToggleAutoCalcExit
  | RunTargetEffect
  | RunExitEffect
  | SubmitForm "js_error option"

fun dialog_step ::
  "(string \<Rightarrow> js_error + StockSymbol list) \<Rightarrow> (string \<Rightarrow> bool) \<Rightarrow> dialog_event
     \<Rightarrow> dialog_state \<Rightarrow> dialog_state" where
  "dialog_step srv isUrl (OpenDialog tip) st = openDialog tip st"
| "dialog_step srv isUrl CloseDialog st = closeDialog st"
| "dialog_step srv isUrl (DetailFetched tip out) st = detailFetched tip out st"
| "dialog_step srv isUrl (SetSearchTerm s) st = setSearchTerm s st"
| "dialog_step srv isUrl (AdvanceDialog d) st = dlg_advance srv d st"
| "dialog_step srv isUrl (StockSelect stock) st = handleStockSelect stock st"
| "dialog_step srv isUrl StockClear st = handleStockClear st"
| "dialog_step srv isUrl ClickOutside st = handleClickOutside st"
| "dialog_step srv isUrl (EditForm f) st = st\<lparr>formValues := f (formValues st)\<rparr>"
| "dialog_step srv isUrl (EnterTargetPrice v) st = enterTargetPrice v st"
| "dialog_step srv isUrl (EnterExitPrice v) st = enterExitPrice v st"
| "dialog_step srv isUrl ToggleAutoCalcTarget st = toggleAutoCalcTarget st"
| "dialog_step srv isUrl ToggleAutoCalcExit st = toggleAutoCalcExit st"
| "dialog_step srv isUrl RunTargetEffect st = autoCalcTargetEffect st"
| "dialog_step srv isUrl RunExitEffect st = autoCalcExitEffect st"
| "dialog_step srv isUrl (SubmitForm outcome) st = submitForm isUrl outcome st"

fun dialog_run ::
  "(string \<Rightarrow> js_error + StockSymbol list) \<Rightarrow> (string \<Rightarrow> bool) \<Rightarrow> dialog_event list
     \<Rightarrow> dialog_state \<Rightarrow> dialog_state" where
  "dialog_run srv isUrl [] st = st"
| "dialog_run srv isUrl (e # es) st = dialog_run srv isUrl es (dialog_step srv isUrl e st)"

text \<open>An existing tip on the example stock, and a URL check that accepts everything.\<close>

definition example_tip :: Tip where
  "example_tip = \<lparr>
     tip_id = Some ''t1'', tip_title = Some ''TCS Investment Tip'', tip_stockId = Some ''s1'',
     tip_stockSymbol = Some ''TCS'', tip_stockName = Some ''Tata Consultancy'',
     tip_category = Some ''basic'',
     tip_content = Some [(''main'', ''Accumulate on dips for the long term.'')],
     tip_description = Some ''Steady compounder'', tip_status = Some ''Active'',
     tip_action = Some ''buy'', tip_buyRange = Some ''100-200'',
     tip_targetPrice = Some ''180'', tip_targetPercentage = Some ''15%'',
     tip_addMoreAt = None, tip_exitPrice = None, tip_exitStatus = None,
     tip_exitStatusPercentage = None, tip_horizon = Some ''Long Term'',
     tip_tipUrl = Some ''https://example.com/report.pdf'',
     tip_analysistConfidence = Some 7 \<rparr>"

definition any_url :: "string \<Rightarrow> bool" where
  "any_url s = True"

text \<open>The dialog after the example stock has been selected from the search results.\<close>

definition selected_dialog :: dialog_state where
  "selected_dialog = handleStockSelect example_stock initial_dialog"

text \<open>
  A submission has a stock id when the form carries one or the selected record has an
  \<open>_id\<close>: the two checks at the head of \<open>onValidSubmit\<close> pass exactly then.
\<close>

definition hasStockId :: "TipFormValues \<Rightarrow> dialog_state \<Rightarrow> bool" where
  "hasStockId vals st =
     (truthy (stockId vals)
      \<or> (case selectedStockDetails st of None \<Rightarrow> False | Some s \<Rightarrow> truthy (stock_id s)))"

text \<open>
  \<open>cache_inv\<close>: the cache has no entry under the empty key, and every detail fetch in
  flight was made for a tip with a stock id.
\<close>

definition cache_inv :: "dialog_state \<Rightarrow> bool" where
  "cache_inv st =
     (stockDetailsCache st [] = None
      \<and> list_all (\<lambda>t. truthy (tip_stockId t)) (pendingDetails st))"

text \<open>
  An edit session: the example tip is opened (its stock is not cached, so the search
  box is shown while the details load), \<open>tc\<close> is typed and the search answers.
\<close>

definition searching_dialog :: dialog_state where
  "searching_dialog =
     dialog_run example_server any_url
       [OpenDialog (Some example_tip), SetSearchTerm ''tc'', AdvanceDialog 300] initial_dialog"

text \<open>The state in which the remote call is made: only the call log has grown.\<close>

definition calling :: "TipFormValues \<Rightarrow> dialog_state \<Rightarrow> dialog_state" where
  "calling vals st =
     (let stockId' =
            (case selectedStockDetails st of
               None \<Rightarrow> or_else (stockId vals) []
             | Some s \<Rightarrow> or_else (stock_id s) (or_else (stockId vals) []));
          tipData = buildTipData vals (selectedStockDetails st) stockId'
      in case (case initialData st of
                 None \<Rightarrow> None
               | Some tip \<Rightarrow> if truthy (tip_id tip) then tip_id tip else None) of
           Some existing \<Rightarrow> st\<lparr>updateTipCalls := updateTipCalls st @ [(existing, tipData)]\<rparr>
         | None \<Rightarrow> st\<lparr>onSubmitCalls := onSubmitCalls st @ [tipData]\<rparr>)"

section \<open>Properties of the stock-symbols page\<close>

text \<open>
  C10. When the search query is not empty and the search returned no result, the table
  shows the whole \<open>stockSymbols\<close> list under the heading "Search Results"; the table
  shows something else than \<open>stockSymbols\<close> only when the search returned at least
  one result, and then it shows the search results.
\<close>

theorem displayData_empty_results:
  "(searchQuery st \<noteq> [] \<and> searchResults st = [] \<longrightarrow>
      displayData st = stockSymbols st \<and> tableHeading st = ''Search Results'')
   \<and> (displayData st \<noteq> stockSymbols st \<longrightarrow>
      searchResults st \<noteq> [] \<and> displayData st = searchResults st)"
  by (simp add: displayData_def tableHeading_def)

theorem displayData_empty_results_witness:
  "searchQuery (initial_page\<lparr>stockSymbols := [example_stock], searchQuery := ''zz''\<rparr>) \<noteq> []
   \<and> searchResults (initial_page\<lparr>stockSymbols := [example_stock], searchQuery := ''zz''\<rparr>) = []
   \<and> displayData (initial_page\<lparr>stockSymbols := [example_stock], searchQuery := ''zz''\<rparr>)
       = [example_stock]
   \<and> tableHeading (initial_page\<lparr>stockSymbols := [example_stock], searchQuery := ''zz''\<rparr>)
       = ''Search Results''"
  using displayData_empty_results
    [of "initial_page\<lparr>stockSymbols := [example_stock], searchQuery := ''zz''\<rparr>"]
  by (simp add: initial_page_def)

subsection \<open>The refresh loop\<close>

lemma refresh_inv_initial: "refresh_inv initial_page"
  by (simp add: refresh_inv_def timer_inv_def initial_page_def)

lemma stop_clears:
  "timer_inv st \<Longrightarrow> intervals (stopRealTimeUpdates st) = [] \<and> intervalRef (stopRealTimeUpdates st) = None"
  by (auto simp: timer_inv_def stopRealTimeUpdates_def clearInterval_def split: option.splits)

lemma stop_other:
  "isRealTimeEnabled (stopRealTimeUpdates st) = isRealTimeEnabled st"
  "isUserAuthenticated (stopRealTimeUpdates st) = isUserAuthenticated st"
  "next_handle (stopRealTimeUpdates st) = next_handle st"
  "fetchCalls (stopRealTimeUpdates st) = fetchCalls st"
  "refreshInterval (stopRealTimeUpdates st) = refreshInterval st"
  by (auto simp: stopRealTimeUpdates_def clearInterval_def split: option.splits)

lemma refresh_inv_stop: "timer_inv st \<Longrightarrow> refresh_inv (stopRealTimeUpdates st)"
  using stop_clears[of st] by (simp add: refresh_inv_def timer_inv_def)


lemma start_fresh:
  assumes "intervals s = []" "intervalRef s = None"
  shows "startRealTimeUpdates s =
     s\<lparr>intervals := [\<lparr>handle = next_handle s, period = REFRESH_INTERVALS (refreshInterval s),
                        captured_pagination = pagination s,
                        captured_updateCounter = updateCounter s\<rparr>],
       next_handle := Suc (next_handle s), intervalRef := Some (next_handle s)\<rparr>"
proof -
  have "stopRealTimeUpdates s = s" using assms by (simp add: stopRealTimeUpdates_def)
  then show ?thesis using assms by (simp add: startRealTimeUpdates_def Let_def)
qed

lemma rerun_eq:
  assumes "timer_inv st"
  shows "rerunRealTimeEffect st =
     (if isRealTimeEnabled st \<and> isUserAuthenticated st
      then (stopRealTimeUpdates st)\<lparr>intervals :=
              [\<lparr>handle = next_handle st, period = REFRESH_INTERVALS (refreshInterval st),
                captured_pagination = pagination (stopRealTimeUpdates st),
                captured_updateCounter = updateCounter (stopRealTimeUpdates st)\<rparr>],
             next_handle := Suc (next_handle st), intervalRef := Some (next_handle st)\<rparr>
      else stopRealTimeUpdates st)"
proof -
  let ?s = "stopRealTimeUpdates st"
  have a: "intervals ?s = []" "intervalRef ?s = None"
    using stop_clears[OF assms] by simp_all
  have b: "stopRealTimeUpdates ?s = ?s"
    using a by (simp add: stopRealTimeUpdates_def)
  show ?thesis
    unfolding rerunRealTimeEffect_def realTimeEffect_def
    by (simp only: start_fresh[OF a] b stop_other if_cancel split: if_splits) 
qed

lemma rerun_result:
  assumes "timer_inv st"
  shows "intervals (rerunRealTimeEffect st) =
           (if isRealTimeEnabled st \<and> isUserAuthenticated st
            then [\<lparr>handle = next_handle st, period = REFRESH_INTERVALS (refreshInterval st),
                   captured_pagination = pagination (stopRealTimeUpdates st),
                   captured_updateCounter = updateCounter (stopRealTimeUpdates st)\<rparr>]
            else [])"
    and "intervalRef (rerunRealTimeEffect st) =
           (if isRealTimeEnabled st \<and> isUserAuthenticated st then Some (next_handle st) else None)"
    and "isRealTimeEnabled (rerunRealTimeEffect st) = isRealTimeEnabled st"
    and "isUserAuthenticated (rerunRealTimeEffect st) = isUserAuthenticated st"
    and "fetchCalls (rerunRealTimeEffect st) = fetchCalls st"
    and "next_handle (rerunRealTimeEffect st) = 
           (if isRealTimeEnabled st \<and> isUserAuthenticated st then Suc (next_handle st) else next_handle st)"
  using stop_clears[OF assms] by (simp_all add: rerun_eq[OF assms] stop_other)

lemma refresh_inv_rerun: "timer_inv st \<Longrightarrow> refresh_inv (rerunRealTimeEffect st)"
  by (simp add: refresh_inv_def timer_inv_def[of "rerunRealTimeEffect st"] rerun_result)

lemma timer_inv_flags:
  "timer_inv (st\<lparr>isRealTimeEnabled := b\<rparr>) = timer_inv st"
  "timer_inv (st\<lparr>refreshInterval := i\<rparr>) = timer_inv st"
  "timer_inv (st\<lparr>isUserAuthenticated := b\<rparr>) = timer_inv st"
  by (simp_all add: timer_inv_def split: option.splits)

lemma refresh_inv_cong:
  "intervalRef st' = intervalRef st \<Longrightarrow> intervals st' = intervals st \<Longrightarrow>
   next_handle st \<le> next_handle st' \<Longrightarrow> isRealTimeEnabled st' = isRealTimeEnabled st \<Longrightarrow>
   isUserAuthenticated st' = isUserAuthenticated st \<Longrightarrow> refresh_inv st \<Longrightarrow> refresh_inv st'"
  by (auto simp: refresh_inv_def timer_inv_def split: option.splits)

lemma refreshStockData_frame:
  "intervalRef (fst (refreshStockData t out st)) = intervalRef st"
  "intervals (fst (refreshStockData t out st)) = intervals st"
  "next_handle (fst (refreshStockData t out st)) = next_handle st"
  "isRealTimeEnabled (fst (refreshStockData t out st)) = isRealTimeEnabled st"
  "isUserAuthenticated (fst (refreshStockData t out st)) = isUserAuthenticated st"
  by (cases out; cases "response_pagination (case out of FetchOk r \<Rightarrow> r)";
      simp add: refreshStockData_def Let_def)+

lemma tickCallback_frame:
  "intervalRef (tickCallback t out st) = intervalRef st"
  "intervals (tickCallback t out st) = intervals st"
  "next_handle (tickCallback t out st) = next_handle st"
  "isRealTimeEnabled (tickCallback t out st) = isRealTimeEnabled st"
  "isUserAuthenticated (tickCallback t out st) = isUserAuthenticated st"
  using refreshStockData_frame[of t out st]
  by (cases "refreshStockData t out st"; cases "snd (refreshStockData t out st)"; simp add: tickCallback_def)+

lemma tick_frame:
  "intervalRef (tick h out st) = intervalRef st"
  "intervals (tick h out st) = intervals st"
  "next_handle (tick h out st) = next_handle st"
  "isRealTimeEnabled (tick h out st) = isRealTimeEnabled st"
  "isUserAuthenticated (tick h out st) = isUserAuthenticated st"
  by (simp_all add: tick_def tickCallback_frame split: option.splits)

lemma searchCallback_frame:
  "intervalRef (searchCallback srv a st) = intervalRef st"
  "intervals (searchCallback srv a st) = intervals st"
  "next_handle (searchCallback srv a st) = next_handle st"
  "isRealTimeEnabled (searchCallback srv a st) = isRealTimeEnabled st"
  "isUserAuthenticated (searchCallback srv a st) = isUserAuthenticated st"
  "fetchCalls (searchCallback srv a st) = fetchCalls st"
  by (cases "srv a"; simp add: searchCallback_def Let_def)+

lemma fireTimer_frame:
  "intervalRef (fireTimer (searchCallback srv) x st) = intervalRef st"
  "intervals (fireTimer (searchCallback srv) x st) = intervals st"
  "next_handle (fireTimer (searchCallback srv) x st) = next_handle st"
  "isRealTimeEnabled (fireTimer (searchCallback srv) x st) = isRealTimeEnabled st"
  "isUserAuthenticated (fireTimer (searchCallback srv) x st) = isUserAuthenticated st"
  "fetchCalls (fireTimer (searchCallback srv) x st) = fetchCalls st"
  by (simp_all add: fireTimer_def searchCallback_frame split_def)

lemma foldl_fireTimer_frame:
  "intervalRef (foldl (\<lambda>s x. fireTimer (searchCallback srv) x s) st due) = intervalRef st
   \<and> intervals (foldl (\<lambda>s x. fireTimer (searchCallback srv) x s) st due) = intervals st
   \<and> next_handle (foldl (\<lambda>s x. fireTimer (searchCallback srv) x s) st due) = next_handle st
   \<and> isRealTimeEnabled (foldl (\<lambda>s x. fireTimer (searchCallback srv) x s) st due) = isRealTimeEnabled st
   \<and> isUserAuthenticated (foldl (\<lambda>s x. fireTimer (searchCallback srv) x s) st due) = isUserAuthenticated st
   \<and> fetchCalls (foldl (\<lambda>s x. fireTimer (searchCallback srv) x s) st due) = fetchCalls st"
  by (induction due arbitrary: st) (simp_all add: fireTimer_frame)

lemma advance_frame:
  "intervalRef (advance srv d st) = intervalRef st"
  "intervals (advance srv d st) = intervals st"
  "next_handle (advance srv d st) = next_handle st"
  "isRealTimeEnabled (advance srv d st) = isRealTimeEnabled st"
  "isUserAuthenticated (advance srv d st) = isUserAuthenticated st"
  "fetchCalls (advance srv d st) = fetchCalls st"
  by (simp_all add: advance_def advanceTimers_def Let_def foldl_fireTimer_frame)

lemma debounce_frame:
  "intervalRef (debounce w s st) = intervalRef st"
  "intervals (debounce w s st) = intervals st"
  "next_handle st \<le> next_handle (debounce w s st)"
  "isRealTimeEnabled (debounce w s st) = isRealTimeEnabled st"
  "isUserAuthenticated (debounce w s st) = isUserAuthenticated st"
  "fetchCalls (debounce w s st) = fetchCalls st"
  by (cases "timeout st"; simp add: debounce_def clearTimeout_def Let_def)+

lemma setSearchQuery_frame:
  "intervalRef (setSearchQuery s st) = intervalRef st"
  "intervals (setSearchQuery s st) = intervals st"
  "next_handle st \<le> next_handle (setSearchQuery s st)"
  "isRealTimeEnabled (setSearchQuery s st) = isRealTimeEnabled st"
  "isUserAuthenticated (setSearchQuery s st) = isUserAuthenticated st"
  "fetchCalls (setSearchQuery s st) = fetchCalls st"
  using debounce_frame[where w=300 and s=s and st="st\<lparr>searchQuery := s\<rparr>"]
  by (simp_all add: setSearchQuery_def debouncedSearch_def Let_def)

lemma refresh_inv_step:
  assumes i: "refresh_inv st"
  shows "refresh_inv (page_step srv e st)"
proof -
  have t: "timer_inv st" using i by (simp add: refresh_inv_def)
  show ?thesis
  proof (cases e)
    case (SetIsRealTimeEnabled b)
    then show ?thesis
      using i t by (simp add: setIsRealTimeEnabled_def refresh_inv_rerun timer_inv_flags)
  next
    case (SetRefreshInterval x)
    then show ?thesis
      using i t by (simp add: setRefreshInterval_def refresh_inv_rerun timer_inv_flags)
  next
    case (SetIsUserAuthenticated b)
    then show ?thesis
      using i t by (simp add: setIsUserAuthenticated_def refresh_inv_rerun timer_inv_flags)
  next
    case (Tick h out)
    then show ?thesis
      using i by (simp add: refresh_inv_cong[of "tick h out st" st] tick_frame)
  next
    case (SetSearchQuery s)
    then show ?thesis
      using i by (simp add: refresh_inv_cong[of "setSearchQuery s st" st] setSearchQuery_frame)
  next
    case (Advance d)
    then show ?thesis
      using i by (simp add: refresh_inv_cong[of "advance srv d st" st] advance_frame)
  next
    case Unmount
    then show ?thesis using t by (simp add: unmount_def refresh_inv_stop)
  qed
qed

lemma refresh_inv_run: "refresh_inv st \<Longrightarrow> refresh_inv (page_run srv es st)"
  by (induction es arbitrary: st) (simp_all add: refresh_inv_step)

lemma tick_no_timer: "intervals st = [] \<Longrightarrow> tick h out st = st"
  by (simp add: tick_def)

lemma off_step:
  assumes i: "refresh_inv st" and off: "\<not> isRealTimeEnabled st"
    and e: "e \<noteq> SetIsRealTimeEnabled True"
  shows "\<not> isRealTimeEnabled (page_step srv e st) \<and> fetchCalls (page_step srv e st) = fetchCalls st"
proof -
  have t: "timer_inv st" using i by (simp add: refresh_inv_def)
  have n: "intervals st = []" using i off by (auto simp: refresh_inv_def)
  show ?thesis
  proof (cases e)
    case (SetIsRealTimeEnabled b)
    then show ?thesis using e off by (simp add: setIsRealTimeEnabled_def)
  next
    case (SetRefreshInterval x)
    then show ?thesis
      using off t by (simp add: setRefreshInterval_def rerun_result timer_inv_flags)
  next
    case (SetIsUserAuthenticated b)
    then show ?thesis
      using off t by (simp add: setIsUserAuthenticated_def rerun_result timer_inv_flags)
  next
    case (Tick h out)
    then show ?thesis using off n by (simp add: tick_no_timer)
  next
    case (SetSearchQuery s)
    then show ?thesis using off by (simp add: setSearchQuery_frame)
  next
    case (Advance d)
    then show ?thesis using off by (simp add: advance_frame)
  next
    case Unmount
    then show ?thesis using off by (simp add: unmount_def stop_other)
  qed
qed

lemma off_run:
  "refresh_inv st \<Longrightarrow> \<not> isRealTimeEnabled st \<Longrightarrow> SetIsRealTimeEnabled True \<notin> set es \<Longrightarrow>
   fetchCalls (page_run srv es st) = fetchCalls st"
proof (induction es arbitrary: st)
  case Nil
  then show ?case by simp
next
  case (Cons e es)
  have e: "e \<noteq> SetIsRealTimeEnabled True" using Cons.prems(3) by auto
  have s: "\<not> isRealTimeEnabled (page_step srv e st)" "fetchCalls (page_step srv e st) = fetchCalls st"
    using off_step[OF Cons.prems(1,2) e] by simp_all
  have "fetchCalls (page_run srv es (page_step srv e st)) = fetchCalls (page_step srv e st)"
    using Cons.prems(3) by (intro Cons.IH refresh_inv_step[OF Cons.prems(1)] s(1)) simp
  then show ?case using s(2) by simp
qed

lemma old_handles_gone:
  assumes t: "timer_inv st" and f: "timer_inv st' \<Longrightarrow> intervals (rerunRealTimeEffect st') = [] \<or>
       map handle (intervals (rerunRealTimeEffect st')) = [next_handle st]"
    and t': "timer_inv st'"
  shows "\<forall>x\<in>set (intervals st). handle x \<notin> handle ` set (intervals (rerunRealTimeEffect st'))"
proof -
  have old: "\<forall>x\<in>set (intervals st). handle x < next_handle st"
    using t by (auto simp: timer_inv_def split: option.splits)
  have "set (map handle (intervals (rerunRealTimeEffect st'))) \<subseteq> {next_handle st}"
    using f[OF t'] by auto
  then show ?thesis using old by fastforce
qed

lemma reconfigure_clears:
  assumes i: "refresh_inv st"
  shows "setIsRealTimeEnabled b st = st \<or>
           (\<forall>x\<in>set (intervals st). handle x \<notin> handle ` set (intervals (setIsRealTimeEnabled b st)))"
    and "setRefreshInterval k st = st \<or>
           (\<forall>x\<in>set (intervals st). handle x \<notin> handle ` set (intervals (setRefreshInterval k st)))"
proof -
  have t: "timer_inv st" using i by (simp add: refresh_inv_def)
  show "setIsRealTimeEnabled b st = st \<or>
           (\<forall>x\<in>set (intervals st). handle x \<notin> handle ` set (intervals (setIsRealTimeEnabled b st)))"
  proof (cases "b = isRealTimeEnabled st")
    case True
    then show ?thesis by (simp add: setIsRealTimeEnabled_def)
  next
    case False
    have "\<forall>x\<in>set (intervals st). handle x \<notin>
            handle ` set (intervals (rerunRealTimeEffect (st\<lparr>isRealTimeEnabled := b\<rparr>)))"
      by (rule old_handles_gone[OF t]) (simp_all add: rerun_result timer_inv_flags t)
    then show ?thesis using False by (simp add: setIsRealTimeEnabled_def)
  qed
  show "setRefreshInterval k st = st \<or>
           (\<forall>x\<in>set (intervals st). handle x \<notin> handle ` set (intervals (setRefreshInterval k st)))"
  proof (cases "k = refreshInterval st")
    case True
    then show ?thesis by (simp add: setRefreshInterval_def)
  next
    case False
    have "\<forall>x\<in>set (intervals st). handle x \<notin>
            handle ` set (intervals (rerunRealTimeEffect (st\<lparr>refreshInterval := k\<rparr>)))"
      by (rule old_handles_gone[OF t]) (simp_all add: rerun_result timer_inv_flags t)
    then show ?thesis using False by (simp add: setRefreshInterval_def)
  qed
qed

lemma refresh_inv_length: "refresh_inv st \<Longrightarrow> length (intervals st) \<le> 1"
proof -
  assume "refresh_inv st"
  then have "timer_inv st" by (simp add: refresh_inv_def)
  then have "length (map handle (intervals st)) \<le> 1"
    by (cases "intervalRef st") (simp_all add: timer_inv_def)
  then show ?thesis by simp
qed

text \<open>
  C5. In every state a page session reaches, at most one refresh-interval timer is
  active. \<open>startRealTimeUpdates\<close> calls \<open>setInterval\<close> only after
  \<open>stopRealTimeUpdates\<close>, which leaves no timer active. Enabling or disabling the
  toggle and changing the period either change nothing (the value is the one already
  set) or leave none of the timers that were active before. While the toggle is off no
  timer is active, and no sequence of events that does not switch it on again issues a
  polling call.
\<close>

theorem refresh_timer_exclusive:
  "length (intervals (page_run srv evs initial_page)) \<le> 1
   \<and> intervals (stopRealTimeUpdates (page_run srv evs initial_page)) = []
   \<and> (setIsRealTimeEnabled b (page_run srv evs initial_page) = page_run srv evs initial_page \<or>
        (\<forall>x\<in>set (intervals (page_run srv evs initial_page)).
           handle x \<notin> handle ` set (intervals (setIsRealTimeEnabled b (page_run srv evs initial_page)))))
   \<and> (setRefreshInterval k (page_run srv evs initial_page) = page_run srv evs initial_page \<or>
        (\<forall>x\<in>set (intervals (page_run srv evs initial_page)).
           handle x \<notin> handle ` set (intervals (setRefreshInterval k (page_run srv evs initial_page)))))
   \<and> (\<not> isRealTimeEnabled (page_run srv evs initial_page) \<longrightarrow>
        intervals (page_run srv evs initial_page) = []
        \<and> (SetIsRealTimeEnabled True \<notin> set evs' \<longrightarrow>
             fetchCalls (page_run srv evs' (page_run srv evs initial_page))
               = fetchCalls (page_run srv evs initial_page)))"
proof -
  let ?st = "page_run srv evs initial_page"
  have i: "refresh_inv ?st" by (rule refresh_inv_run[OF refresh_inv_initial])
  have t: "timer_inv ?st" using i by (simp add: refresh_inv_def)
  have 1: "length (intervals ?st) \<le> 1" by (rule refresh_inv_length[OF i])
  have 2: "intervals (stopRealTimeUpdates ?st) = []" using stop_clears[OF t] by simp
  have 5: "\<not> isRealTimeEnabled ?st \<longrightarrow> intervals ?st = []"
    using i by (auto simp: refresh_inv_def)
  have 6: "\<not> isRealTimeEnabled ?st \<longrightarrow> SetIsRealTimeEnabled True \<notin> set evs' \<longrightarrow>
             fetchCalls (page_run srv evs' ?st) = fetchCalls ?st"
    using off_run[OF i] by blast
  show ?thesis using 1 2 reconfigure_clears(1)[OF i, of b] reconfigure_clears(2)[OF i, of k] 5 6 by blast
qed

text \<open>
  C6. A tick of the active timer whose fetch fails sets the connectivity flag to false,
  leaves the rows and what the table displays unchanged and leaves the timer, its
  period, the stored handle and the toggle as they were, so the loop keeps ticking at
  the same period. A
  tick whose fetch succeeds sets the flag to true and strictly increases the update
  counter.
\<close>

theorem tick_outcomes:
  assumes "find (\<lambda>t. handle t = h) (intervals st) = Some t"
  shows "\<not> isConnected (tick h (FetchFail e) st)
       \<and> stockSymbols (tick h (FetchFail e) st) = stockSymbols st
       \<and> displayData (tick h (FetchFail e) st) = displayData st
       \<and> intervals (tick h (FetchFail e) st) = intervals st
       \<and> intervalRef (tick h (FetchFail e) st) = intervalRef st
       \<and> isRealTimeEnabled (tick h (FetchFail e) st) = isRealTimeEnabled st
       \<and> refreshInterval (tick h (FetchFail e) st) = refreshInterval st
       \<and> isConnected (tick h (FetchOk r) st)
       \<and> updateCounter st < updateCounter (tick h (FetchOk r) st)
       \<and> intervals (tick h (FetchOk r) st) = intervals st"
proof -
  have f: "tick h (FetchFail e) st =
             st\<lparr>fetchCalls := fetchCalls st @
                   [(page (captured_pagination t), limit (captured_pagination t))],
                isConnected := False\<rparr>"
    using assms by (simp add: tick_def tickCallback_def refreshStockData_def Let_def)
  have u: "updateCounter (fst (refreshStockData t (FetchOk r) st)) = Suc (updateCounter st)"
    by (cases "response_pagination r") (simp_all add: refreshStockData_def Let_def)
  have k: "tick h (FetchOk r) st = (fst (refreshStockData t (FetchOk r) st))\<lparr>isConnected := True\<rparr>"
    using assms by (simp add: tick_def tickCallback_def refreshStockData_def Let_def)
  show ?thesis
    by (simp add: f k u refreshStockData_frame displayData_def)
qed

lemmas refresh_defs = setIsRealTimeEnabled_def setRefreshInterval_def rerunRealTimeEffect_def
  realTimeEffect_def startRealTimeUpdates_def stopRealTimeUpdates_def clearInterval_def
  initial_page_def Let_def

lemma polling_state:
  "setIsRealTimeEnabled True initial_page =
     initial_page\<lparr>isRealTimeEnabled := True, intervalRef := Some 1, next_handle := 2,
       intervals := [\<lparr>handle = 1, period = 30000,
          captured_pagination = \<lparr>page = 1, limit = 50, total = 0, pages = 0\<rparr>,
          captured_updateCounter = 0\<rparr>]\<rparr>"
  by (simp add: refresh_defs)

theorem refresh_timer_exclusive_witness:
  "\<not> isRealTimeEnabled (page_run example_server
        [SetIsRealTimeEnabled True, SetRefreshInterval I5, SetIsRealTimeEnabled False] initial_page)
   \<and> SetIsRealTimeEnabled True \<notin> set [Tick 2 (FetchFail NonError), Advance 1000]
   \<and> intervals (page_run example_server
        [SetIsRealTimeEnabled True, SetRefreshInterval I5, SetIsRealTimeEnabled False] initial_page) = []
   \<and> fetchCalls (page_run example_server [Tick 2 (FetchFail NonError), Advance 1000]
        (page_run example_server
          [SetIsRealTimeEnabled True, SetRefreshInterval I5, SetIsRealTimeEnabled False] initial_page)) = []
   \<and> map handle (intervals (page_run example_server [SetIsRealTimeEnabled True] initial_page)) = [1]
   \<and> 1 \<notin> handle ` set (intervals (setRefreshInterval I5
        (page_run example_server [SetIsRealTimeEnabled True] initial_page)))"
proof -
  let ?off = "page_run example_server
        [SetIsRealTimeEnabled True, SetRefreshInterval I5, SetIsRealTimeEnabled False] initial_page"
  let ?on = "page_run example_server [SetIsRealTimeEnabled True] initial_page"
  have a: "\<not> isRealTimeEnabled ?off" by (simp add: refresh_defs)
  have b: "SetIsRealTimeEnabled True \<notin> set [Tick 2 (FetchFail NonError), Advance 1000]" by simp
  have c: "fetchCalls ?off = []" by (simp add: refresh_defs)
  have d: "map handle (intervals ?on) = [1]" by (simp add: polling_state)
  have e: "setRefreshInterval I5 ?on \<noteq> ?on"
    by (simp add: polling_state) (simp add: refresh_defs)
  from refresh_timer_exclusive[of example_server
        "[SetIsRealTimeEnabled True, SetRefreshInterval I5, SetIsRealTimeEnabled False]"
        True I5 "[Tick 2 (FetchFail NonError), Advance 1000]"] a b c
  have 1: "intervals ?off = [] \<and> fetchCalls (page_run example_server
             [Tick 2 (FetchFail NonError), Advance 1000] ?off) = []"
    by simp
  from refresh_timer_exclusive[of example_server "[SetIsRealTimeEnabled True]" True I5 "[]"] d e
  have 2: "1 \<notin> handle ` set (intervals (setRefreshInterval I5 ?on))"
    by auto
  show ?thesis using a b 1 2 d by blast
qed

theorem tick_outcomes_witness:
  "find (\<lambda>t. handle t = 1)
      (intervals (page_run example_server [SetIsRealTimeEnabled True] initial_page))
     = Some \<lparr>handle = 1, period = 30000,
          captured_pagination = \<lparr>page = 1, limit = 50, total = 0, pages = 0\<rparr>,
          captured_updateCounter = 0\<rparr>
   \<and> \<not> isConnected (tick 1 (FetchFail NonError)
        (page_run example_server [SetIsRealTimeEnabled True] initial_page))
   \<and> map handle (intervals (tick 1 (FetchFail NonError)
        (page_run example_server [SetIsRealTimeEnabled True] initial_page))) = [1]
   \<and> updateCounter (tick 1 (FetchOk \<lparr>data = [example_stock], response_pagination = None\<rparr>)
        (page_run example_server [SetIsRealTimeEnabled True] initial_page)) > 0"
proof -
  let ?on = "page_run example_server [SetIsRealTimeEnabled True] initial_page"
  have h: "find (\<lambda>t. handle t = 1) (intervals ?on)
     = Some \<lparr>handle = 1, period = 30000,
          captured_pagination = \<lparr>page = 1, limit = 50, total = 0, pages = 0\<rparr>,
          captured_updateCounter = 0\<rparr>"
    by (simp add: polling_state)
  have i: "map handle (intervals ?on) = [1]" by (simp add: polling_state)
  from tick_outcomes[OF h, of NonError "\<lparr>data = [example_stock], response_pagination = None\<rparr>"]
  show ?thesis using h i by simp
qed

subsection \<open>The debounced search of the page\<close>

lemma pending_inv_cong:
  "timeout st' = timeout st \<Longrightarrow> set (timeouts st') \<subseteq> set (timeouts st) \<Longrightarrow>
   pending_inv st \<Longrightarrow> pending_inv st'"
  by (auto simp: pending_inv_def list_all_iff)

lemma stop_timeouts:
  "timeout (stopRealTimeUpdates st) = timeout st"
  "timeouts (stopRealTimeUpdates st) = timeouts st"
  by (simp_all add: stopRealTimeUpdates_def clearInterval_def split: option.splits)

lemma start_timeouts:
  "timeout (startRealTimeUpdates st) = timeout st"
  "timeouts (startRealTimeUpdates st) = timeouts st"
  by (simp_all add: startRealTimeUpdates_def Let_def stop_timeouts)

lemma rerun_timeouts:
  "timeout (rerunRealTimeEffect st) = timeout st"
  "timeouts (rerunRealTimeEffect st) = timeouts st"
  by (simp_all add: rerunRealTimeEffect_def realTimeEffect_def stop_timeouts start_timeouts)

lemma refreshStockData_timeouts:
  "timeout (fst (refreshStockData t out st)) = timeout st"
  "timeouts (fst (refreshStockData t out st)) = timeouts st"
  by (cases out; cases "response_pagination (case out of FetchOk r \<Rightarrow> r)";
      simp add: refreshStockData_def Let_def)+

lemma tick_timeouts:
  "timeout (tick h out st) = timeout st"
  "timeouts (tick h out st) = timeouts st"
  using refreshStockData_timeouts
  by (simp_all add: tick_def tickCallback_def split_def split: option.splits)

lemma searchCallback_timeout:
  "timeout (searchCallback srv a st) = timeout st"
  "set (timeouts (searchCallback srv a st)) = set (timeouts st)"
  by (cases "srv a"; simp add: searchCallback_def Let_def)+

lemma foldl_fireTimer_timeout:
  "timeout (foldl (\<lambda>s x. fireTimer (searchCallback srv) x s) st due) = timeout st
   \<and> set (timeouts (foldl (\<lambda>s x. fireTimer (searchCallback srv) x s) st due)) = set (timeouts st)"
  by (induction due arbitrary: st) (simp_all add: fireTimer_def searchCallback_timeout split_def)

lemma advance_timeouts:
  "timeout (advance srv d st) = timeout st"
  "set (timeouts (advance srv d st)) \<subseteq> set (timeouts st)"
  by (auto simp: advance_def advanceTimers_def Let_def foldl_fireTimer_timeout)

lemma clearTimeout_inv:
  "pending_inv st \<Longrightarrow> timeouts (clearTimeout (timeout st) st) = []"
proof -
  assume p: "pending_inv st"
  show ?thesis
  proof (cases "timeout st")
    case None
    then have "timeouts st = []" using p
      by (cases "timeouts st") (auto simp: pending_inv_def)
    then show ?thesis using None by (simp add: clearTimeout_def)
  next
    case (Some h)
    have "\<forall>x\<in>set (timeouts st). fst x = h"
      using p Some by (auto simp: pending_inv_def list_all_iff)
    then have "filter (\<lambda>(k, due, a). k \<noteq> h) (timeouts st) = []"
      by (auto simp: filter_empty_conv)
    then show ?thesis using Some by (simp add: clearTimeout_def)
  qed
qed

lemma debounce_result:
  assumes "pending_inv st"
  shows "debounce w a st = st\<lparr>timeouts := [(next_handle st, clock st + w, a)],
            next_handle := Suc (next_handle st), timeout := Some (next_handle st)\<rparr>"
proof -
  have c: "clearTimeout (timeout st) st = st\<lparr>timeouts := []\<rparr>"
    using clearTimeout_inv[OF assms] by (cases "timeout st") (simp_all add: clearTimeout_def)
  show ?thesis by (simp add: debounce_def c Let_def)
qed

lemma advanceTimers_quiet:
  assumes "\<forall>x\<in>set (timeouts st). clock st + d < fst (snd x)"
  shows "advanceTimers func d st = st\<lparr>clock := clock st + d\<rparr>"
proof -
  have 1: "filter (\<lambda>(h, t, a). t \<le> clock st + d) (timeouts st) = []"
    using assms by (auto simp: filter_empty_conv)
  have 2: "filter (\<lambda>(h, t, a). \<not> t \<le> clock st + d) (timeouts st) = timeouts st"
    using assms by (auto simp: filter_id_conv)
  show ?thesis by (simp add: advanceTimers_def Let_def 1 2)
qed

lemma advance_quiet:
  "\<forall>x\<in>set (timeouts st). clock st + d < fst (snd x) \<Longrightarrow>
   advance srv d st = st\<lparr>clock := clock st + d\<rparr>"
  by (simp add: advance_def advanceTimers_quiet)

lemma advanceTimers_fire_one:
  assumes "timeouts st = [(h, t, a)]" "t \<le> clock st + d"
  shows "advanceTimers func d st =
           func a (st\<lparr>clock := clock st + d, timeouts := [], fired := fired st @ [a]\<rparr>)"
  using assms by (simp add: advanceTimers_def Let_def fireTimer_def)

lemma advance_fire_one:
  assumes "timeouts st = [(h, t, a)]" "t \<le> clock st + d"
  shows "advance srv d st =
           searchCallback srv a (st\<lparr>clock := clock st + d, timeouts := [], fired := fired st @ [a]\<rparr>)"
  using assms by (simp add: advance_def advanceTimers_fire_one)

lemma edit_restarts_timer:
  assumes p: "pending_inv st" and ne: "s \<noteq> []" and ch: "s \<noteq> searchQuery st"
  shows "setSearchQuery s st =
           st\<lparr>searchQuery := s, timeouts := [(next_handle st, clock st + 300, s)],
              next_handle := Suc (next_handle st), timeout := Some (next_handle st)\<rparr>"
proof -
  have "pending_inv (st\<lparr>searchQuery := s\<rparr>)" using p by (simp add: pending_inv_def)
  from debounce_result[OF this, of 300 s] show ?thesis
    using ne ch by (simp add: setSearchQuery_def debouncedSearch_def Let_def)
qed

lemma pending_inv_setSearchQuery:
  assumes p: "pending_inv st"
  shows "pending_inv (setSearchQuery s st)"
proof (cases "s = searchQuery st")
  case True
  then show ?thesis using p by (simp add: setSearchQuery_def)
next
  case ch: False
  show ?thesis
  proof (cases "s = []")
    case True
    then show ?thesis using p ch by (simp add: setSearchQuery_def Let_def pending_inv_def)
  next
    case False
    show ?thesis
      by (simp only: edit_restarts_timer[OF p False ch]) (simp add: pending_inv_def)
  qed
qed

lemma pending_inv_rerun:
  "timeout st' = timeout st \<Longrightarrow> timeouts st' = timeouts st \<Longrightarrow> pending_inv st \<Longrightarrow>
   pending_inv (rerunRealTimeEffect st')"
  by (simp add: pending_inv_def rerun_timeouts)

lemma pending_inv_step:
  assumes p: "pending_inv st"
  shows "pending_inv (page_step srv e st)"
proof (cases e)
  case (SetIsRealTimeEnabled b)
  have "pending_inv (rerunRealTimeEffect (st\<lparr>isRealTimeEnabled := c\<rparr>))" for c
    by (rule pending_inv_rerun[OF _ _ p]) simp_all
  then show ?thesis using p SetIsRealTimeEnabled by (simp add: setIsRealTimeEnabled_def)
next
  case (SetRefreshInterval i)
  have "pending_inv (rerunRealTimeEffect (st\<lparr>refreshInterval := c\<rparr>))" for c
    by (rule pending_inv_rerun[OF _ _ p]) simp_all
  then show ?thesis using p SetRefreshInterval by (simp add: setRefreshInterval_def)
next
  case (SetIsUserAuthenticated b)
  have "pending_inv (rerunRealTimeEffect (st\<lparr>isUserAuthenticated := c\<rparr>))" for c
    by (rule pending_inv_rerun[OF _ _ p]) simp_all
  then show ?thesis using p SetIsUserAuthenticated by (simp add: setIsUserAuthenticated_def)
next
  case (Tick h out)
  then show ?thesis
    using p by (simp add: pending_inv_cong[of "tick h out st" st] tick_timeouts)
next
  case (SetSearchQuery s)
  then show ?thesis using p by (simp add: pending_inv_setSearchQuery)
next
  case (Advance d)
  then show ?thesis
    using p by (simp add: pending_inv_cong[of "advance srv d st" st] advance_timeouts)
next
  case Unmount
  then show ?thesis
    using p by (simp add: unmount_def pending_inv_cong[of "stopRealTimeUpdates st" st] stop_timeouts)
qed

lemma pending_inv_run: "pending_inv st \<Longrightarrow> pending_inv (page_run srv es st)"
  by (induction es arbitrary: st) (simp_all add: pending_inv_step)

lemma pending_inv_initial: "pending_inv initial_page"
  by (simp add: pending_inv_def initial_page_def)

lemma typing_burst:
  assumes "timeout st = Some h" "timeouts st = [(h, clock st + 300, s)]" "searchQuery st = s"
    and "\<forall>x\<in>set es. fst x < 300 \<and> snd x \<noteq> []" and "distinct_adj (s # map snd es)"
  shows "\<exists>h'. timeout (typing srv es st) = Some h'
            \<and> timeouts (typing srv es st) =
                [(h', clock (typing srv es st) + 300, last (s # map snd es))]
            \<and> searchQuery (typing srv es st) = last (s # map snd es)
            \<and> searchCalls (typing srv es st) = searchCalls st
            \<and> fired (typing srv es st) = fired st"
  using assms
proof (induction es arbitrary: st h s)
  case Nil
  then show ?case by simp
next
  case (Cons e es)
  obtain gap s' where e: "e = (gap, s')" by (cases e)
  have gap: "gap < 300" and ne: "s' \<noteq> []" using Cons.prems(4) e by auto
  have ch: "s' \<noteq> s" using Cons.prems(5) e by auto
  have da: "distinct_adj (s' # map snd es)" using Cons.prems(5) e by simp
  let ?a = "st\<lparr>clock := clock st + gap\<rparr>"
  have adv: "advance srv gap st = ?a"
    by (rule advance_quiet) (simp add: Cons.prems(2) gap)
  have pa: "pending_inv ?a" using Cons.prems(1,2) by (simp add: pending_inv_def)
  have cha: "s' \<noteq> searchQuery ?a" using ch Cons.prems(3) by simp
  let ?b = "setSearchQuery s' ?a"
  have b: "?b = ?a\<lparr>searchQuery := s', timeouts := [(next_handle ?a, clock ?a + 300, s')],
              next_handle := Suc (next_handle ?a), timeout := Some (next_handle ?a)\<rparr>"
    by (rule edit_restarts_timer[OF pa ne cha])
  have b1: "timeout ?b = Some (next_handle st)" by (simp add: b)
  have b2: "timeouts ?b = [(next_handle st, clock ?b + 300, s')]" by (simp add: b)
  have b3: "searchQuery ?b = s'" by (simp add: b)
  have b4: "searchCalls ?b = searchCalls st" "fired ?b = fired st" by (simp_all add: b)
  have rest: "\<forall>x\<in>set es. fst x < 300 \<and> snd x \<noteq> []" using Cons.prems(4) by simp
  from Cons.IH[OF b1 b2 b3 rest da] obtain h' where
    "timeout (typing srv es ?b) = Some h'
       \<and> timeouts (typing srv es ?b) = [(h', clock (typing srv es ?b) + 300, last (s' # map snd es))]
       \<and> searchQuery (typing srv es ?b) = last (s' # map snd es)
       \<and> searchCalls (typing srv es ?b) = searchCalls ?b
       \<and> fired (typing srv es ?b) = fired ?b" by blast
  then show ?case using e adv b4 by (simp del: last.simps add: last_ConsR)
qed

lemma searchCallback_calls:
  "searchCalls (searchCallback srv a st) = (if length a < 2 then searchCalls st else searchCalls st @ [a])"
  "timeouts (searchCallback srv a st) = timeouts st"
  "fired (searchCallback srv a st) = fired st"
  by (cases "srv a"; simp add: searchCallback_def Let_def)+

text \<open>
  C3 (as amended). Take any state the page reaches in a session, whatever was typed,
  searched and shown before, and from it a burst of edits: every edit sets a non-empty
  text different from the text before it, and every edit after the first comes less than
  300 ms after the one before. When the burst ends, no timer has fired and no remote
  search was issued since it began, and exactly one timer is pending, carrying the final
  text. Once the input has been stable for the quiet period that timer fires, and it is
  the only one that fired since the burst began; it issues one remote search with the
  final text when that text has at least 2 characters, and none when it is shorter.
\<close>

theorem burst_fires_once:
  assumes reach: "st = page_run srv0 evs initial_page"
    and r: "rapid_edits (searchQuery st) s0 es" and q: "300 \<le> quiet"
  shows "searchCalls (typing srv es (setSearchQuery s0 st)) = searchCalls st
       \<and> fired (typing srv es (setSearchQuery s0 st)) = fired st
       \<and> map (snd \<circ> snd) (timeouts (typing srv es (setSearchQuery s0 st)))
            = [last (s0 # map snd es)]
       \<and> fired (advance srv quiet (typing srv es (setSearchQuery s0 st)))
            = fired st @ [last (s0 # map snd es)]
       \<and> searchCalls (advance srv quiet (typing srv es (setSearchQuery s0 st)))
            = searchCalls st
                @ (if 2 \<le> length (last (s0 # map snd es)) then [last (s0 # map snd es)] else [])
       \<and> timeouts (advance srv quiet (typing srv es (setSearchQuery s0 st))) = []"
proof -
  have ne: "s0 \<noteq> []" and ch: "s0 \<noteq> searchQuery st"
    and gaps: "\<forall>x\<in>set es. fst x < 300 \<and> snd x \<noteq> []"
    and da: "distinct_adj (s0 # map snd es)"
    using r by (auto simp: rapid_edits_def list_all_iff)
  have p: "pending_inv st"
    unfolding reach by (rule pending_inv_run[OF pending_inv_initial])
  let ?b = "setSearchQuery s0 st"
  have b: "?b = st\<lparr>searchQuery := s0, timeouts := [(next_handle st, clock st + 300, s0)],
              next_handle := Suc (next_handle st), timeout := Some (next_handle st)\<rparr>"
    by (rule edit_restarts_timer[OF p ne ch])
  have b1: "timeout ?b = Some (next_handle st)" by (simp add: b)
  have b2: "timeouts ?b = [(next_handle st, clock ?b + 300, s0)]" by (simp add: b)
  have b3: "searchQuery ?b = s0" by (simp add: b)
  have b4: "searchCalls ?b = searchCalls st" "fired ?b = fired st" by (simp_all add: b)
  let ?st = "typing srv es ?b"
  let ?f = "last (s0 # map snd es)"
  from typing_burst[OF b1 b2 b3 gaps da, of srv] obtain h' where
    h: "timeouts ?st = [(h', clock ?st + 300, ?f)]"
      "searchCalls ?st = searchCalls st" "fired ?st = fired st"
    using b4 by auto
  have fire: "advance srv quiet ?st =
      searchCallback srv ?f (?st\<lparr>clock := clock ?st + quiet, timeouts := [], fired := fired ?st @ [?f]\<rparr>)"
    by (rule advance_fire_one[OF h(1)]) (simp add: q)
  show ?thesis
    using h by (simp only: fire searchCallback_calls) (simp del: last.simps typing.simps)
qed

lemma searched_page:
  "searchQuery (page_run example_server [SetSearchQuery ''tc'', Advance 300] initial_page) = ''tc''"
  "searchResults (page_run example_server [SetSearchQuery ''tc'', Advance 300] initial_page)
     = [example_stock]"
  "searchCalls (page_run example_server [SetSearchQuery ''tc'', Advance 300] initial_page) = [''tc'']"
  "fired (page_run example_server [SetSearchQuery ''tc'', Advance 300] initial_page) = [''tc'']"
  by (simp_all add: setSearchQuery_def debouncedSearch_def debounce_def clearTimeout_def advance_def
      advanceTimers_def fireTimer_def searchCallback_def example_server_def initial_page_def
      Let_def)

theorem burst_fires_once_witness:
  "rapid_edits (searchQuery (page_run example_server [SetSearchQuery ''tc'', Advance 300] initial_page))
      ''re'' [(120, ''rel''), (90, ''reli'')]
   \<and> searchResults (page_run example_server [SetSearchQuery ''tc'', Advance 300] initial_page)
      = [example_stock]
   \<and> searchCalls (advance example_server 300
        (typing example_server [(120, ''rel''), (90, ''reli'')]
          (setSearchQuery ''re''
            (page_run example_server [SetSearchQuery ''tc'', Advance 300] initial_page))))
      = [''tc'', ''reli'']
   \<and> fired (advance example_server 300
        (typing example_server [(120, ''rel''), (90, ''reli'')]
          (setSearchQuery ''re''
            (page_run example_server [SetSearchQuery ''tc'', Advance 300] initial_page))))
      = [''tc'', ''reli'']"
proof -
  let ?st = "page_run example_server [SetSearchQuery ''tc'', Advance 300] initial_page"
  have a: "rapid_edits (searchQuery ?st) ''re'' [(120, ''rel''), (90, ''reli'')]"
    by (simp only: searched_page) (simp add: rapid_edits_def)
  have d: "(300::nat) \<le> 300" by simp
  have f: "last (''re'' # map snd [(120::nat, ''rel''), (90, ''reli'')]) = ''reli''" by simp
  note r = burst_fires_once[OF refl a d, of example_server, unfolded f]
  have r1: "searchCalls (advance example_server 300
        (typing example_server [(120, ''rel''), (90, ''reli'')] (setSearchQuery ''re'' ?st)))
      = [''tc'', ''reli'']"
    using r by (simp only: searched_page) simp
  have r2: "fired (advance example_server 300
        (typing example_server [(120, ''rel''), (90, ''reli'')] (setSearchQuery ''re'' ?st)))
      = [''tc'', ''reli'']"
    using r by (simp only: searched_page) simp
  show ?thesis by (intro conjI a r1 r2 searched_page(2))
qed

text \<open>
  The claim as stated fails twice. After the single edit \<open>a\<close> the quiet period ends
  with no remote search at all. After the edits \<open>ab\<close> and then the empty text, 100 ms
  apart, the timer of \<open>ab\<close> is not cancelled (the effect does not call the debounced
  function for an empty text) and fires: one remote search is issued, for \<open>ab\<close>, while
  the final text is empty.
\<close>

theorem burst_counterexample:
  "searchCalls (advance example_server 300 (typing example_server [(0, ''a'')] initial_page)) = []
   \<and> searchCalls (advance example_server 300
        (typing example_server [(0, ''ab''), (100, [])] initial_page)) = [''ab'']
   \<and> searchQuery (advance example_server 300
        (typing example_server [(0, ''ab''), (100, [])] initial_page)) = []"
  by (simp add: setSearchQuery_def debouncedSearch_def debounce_def clearTimeout_def advance_def
      advanceTimers_def fireTimer_def searchCallback_def example_server_def initial_page_def
      Let_def)

section \<open>Properties of the tip form dialog\<close>

subsection \<open>Short search terms\<close>

lemma debounce_then_quiet:
  assumes p: "pending_inv st" and q: "300 \<le> q"
  shows "advanceTimers func q (debounce 300 a st) =
           func a ((debounce 300 a st)\<lparr>clock := clock st + q, timeouts := [],
                     fired := fired st @ [a]\<rparr>)"
proof -
  note d = debounce_result[OF p, of 300 a]
  have t: "timeouts (debounce 300 a st) = [(next_handle st, clock st + 300, a)]"
    by (simp add: d)
  have c: "clock (debounce 300 a st) = clock st" "fired (debounce 300 a st) = fired st"
    by (simp_all add: d)
  have "clock st + 300 \<le> clock (debounce 300 a st) + q" using q c by simp
  from advanceTimers_fire_one[OF t this, of func] show ?thesis by (simp add: c)
qed

lemma searchCallback_short:
  "length term < 2 \<Longrightarrow> searchCallback srv term st = st\<lparr>searchResults := []\<rparr>"
  by (simp add: searchCallback_def)

lemma dlg_searchCallback_short:
  "length term < 2 \<Longrightarrow>
   dlg_searchCallback srv term st = st\<lparr>dlg_searchResults := [], showResults := False\<rparr>"
  by (simp add: dlg_searchCallback_def)

text \<open>
  C4. For a term shorter than 2 characters the debounced function of either screen
  issues no remote search and sets the result list to empty. This holds for the function
  itself and for the whole trigger: when the debounced function is called with such a
  term and the quiet period passes, its timer fires, no remote search has been issued
  and the result list is empty.
\<close>

theorem short_term_no_search:
  assumes s: "length term < 2"
  shows "searchCalls (searchCallback srv term st) = searchCalls st
       \<and> searchResults (searchCallback srv term st) = []
       \<and> searchCalls (dlg_searchCallback srv term ds) = searchCalls ds
       \<and> dlg_searchResults (dlg_searchCallback srv term ds) = []
       \<and> (pending_inv st \<and> 300 \<le> q \<longrightarrow>
            searchCalls (advance srv q (debouncedSearch term st)) = searchCalls st
            \<and> searchResults (advance srv q (debouncedSearch term st)) = []
            \<and> fired (advance srv q (debouncedSearch term st)) = fired st @ [term])
       \<and> (pending_inv ds \<and> 300 \<le> q \<longrightarrow>
            searchCalls (dlg_advance srv q (debounce 300 term ds)) = searchCalls ds
            \<and> dlg_searchResults (dlg_advance srv q (debounce 300 term ds)) = []
            \<and> fired (dlg_advance srv q (debounce 300 term ds)) = fired ds @ [term])"
proof -
  have 1: "searchCalls (searchCallback srv term st) = searchCalls st
       \<and> searchResults (searchCallback srv term st) = []"
    by (simp add: searchCallback_short[OF s])
  have 2: "searchCalls (dlg_searchCallback srv term ds) = searchCalls ds
       \<and> dlg_searchResults (dlg_searchCallback srv term ds) = []"
    by (simp add: dlg_searchCallback_short[OF s])
  have 3: "searchCalls (advance srv q (debouncedSearch term st)) = searchCalls st
            \<and> searchResults (advance srv q (debouncedSearch term st)) = []
            \<and> fired (advance srv q (debouncedSearch term st)) = fired st @ [term]"
    if p: "pending_inv st" and q: "300 \<le> q"
  proof -
    have "searchCalls (debounce 300 term st) = searchCalls st"
      by (simp add: debounce_result[OF p])
    then show ?thesis
      by (simp add: advance_def debouncedSearch_def debounce_then_quiet[OF p q]
          searchCallback_short[OF s])
  qed
  have 4: "searchCalls (dlg_advance srv q (debounce 300 term ds)) = searchCalls ds
            \<and> dlg_searchResults (dlg_advance srv q (debounce 300 term ds)) = []
            \<and> fired (dlg_advance srv q (debounce 300 term ds)) = fired ds @ [term]"
    if p: "pending_inv ds" and q: "300 \<le> q"
  proof -
    have "searchCalls (debounce 300 term ds) = searchCalls ds"
      by (simp add: debounce_result[OF p])
    then show ?thesis
      by (simp add: dlg_advance_def debounce_then_quiet[OF p q] dlg_searchCallback_short[OF s])
  qed
  show ?thesis using 1 2 3 4 by blast
qed

theorem short_term_no_search_witness:
  "length ''a'' < 2 \<and> pending_inv initial_page \<and> (300::nat) \<le> 300
   \<and> pending_inv initial_dialog
   \<and> searchCalls (advance example_server 300 (debouncedSearch ''a'' initial_page)) = []
   \<and> searchResults (advance example_server 300 (debouncedSearch ''a'' initial_page)) = []
   \<and> searchCalls (dlg_advance example_server 300 (debounce 300 ''a'' initial_dialog)) = []
   \<and> dlg_searchResults (dlg_advance example_server 300 (debounce 300 ''a'' initial_dialog)) = []"
proof -
  have a: "length ''a'' < 2" by simp
  have b: "pending_inv initial_page" by (simp add: pending_inv_def initial_page_def)
  have c: "pending_inv initial_dialog"
    by (simp add: pending_inv_def initial_dialog_def debounce_def clearTimeout_def first_render_def Let_def)
  have d: "searchCalls initial_page = []" by (simp add: initial_page_def)
  have e: "searchCalls initial_dialog = []"
    by (simp add: initial_dialog_def debounce_def clearTimeout_def first_render_def Let_def)
  from short_term_no_search[OF a, of example_server initial_page initial_dialog 300]
  show ?thesis using a b c d e by simp
qed

subsection \<open>Validation\<close>

lemma fields_append:
  "fst ` set a \<subseteq> S \<Longrightarrow> fst ` set b \<subseteq> S \<Longrightarrow> fst ` set (a @ b) \<subseteq> S"
  by auto

lemma z_check_fields:
  "f \<in> S \<Longrightarrow> fst ` set (z_min f n m s) \<subseteq> S"
  "f \<in> S \<Longrightarrow> fst ` set (z_max f n m s) \<subseteq> S"
  "f \<in> S \<Longrightarrow> fst ` set (z_refine f ok m s) \<subseteq> S"
  "f \<in> S \<Longrightarrow> fst ` set (z_enum f allowed m v) \<subseteq> S"
  "fst ` set (z_optional_string f v) \<subseteq> S"
  by (auto simp: z_min_def z_max_def z_refine_def z_enum_def z_optional_string_def
      split: option.splits if_splits)

lemma z_string_fields:
  "(\<And>s. fst ` set (checks s) \<subseteq> S) \<Longrightarrow> f \<in> S \<Longrightarrow> fst ` set (z_string f v checks) \<subseteq> S"
  by (cases v) (auto simp: z_string_def)

lemma confidence_fields:
  "AnalysistConfidence \<in> S \<Longrightarrow>
   fst ` set (case n of None \<Rightarrow> [(AnalysistConfidence, a)]
      | Some n \<Rightarrow> (if P n then [(AnalysistConfidence, b)] else [])
        @ (if Q n then [(AnalysistConfidence, c)] else [])
        @ (if R n then [] else [(AnalysistConfidence, d)])) \<subseteq> S"
  by (cases n) auto

lemma tipSchema_fields:
  "fst ` set (tipSchema isUrl v) \<subseteq>
     {Title, StockId, StockSymbolField, Category, Content, Description, Status, Action,
      BuyRange, Horizon, TipUrl, AnalysistConfidence}"
  unfolding tipSchema_def
  by (intro fields_append z_string_fields z_check_fields confidence_fields) simp_all

lemmas schema_defs = tipSchema_def z_string_def z_min_def z_max_def z_refine_def
  z_optional_string_def z_enum_def rangePattern_def number_prefix_def is_digit_def is_space_def
  example_payload_def

lemma example_payload_issues:
  "tipSchema isUrl (example_payload (Some ''buy'') target) =
     (if isUrl ''https://example.com/report.pdf'' then []
      else [(TipUrl, ''Please enter a valid URL'')])"
  "tipSchema isUrl (example_payload (Some ''hold'') target) =
     (if isUrl ''https://example.com/report.pdf'' then []
      else [(TipUrl, ''Please enter a valid URL'')])"
  by (simp_all add: schema_defs)

text \<open>
  C1. The claim asks that a payload with action \<open>buy\<close> and no target price fails
  validation with a required-field error while the same payload with action \<open>hold\<close>
  passes. The form marks the target price as required for \<open>buy\<close>, but the schema
  does not: the example payload passes with action \<open>buy\<close> and the target price absent
  or empty, as it does with \<open>hold\<close>; no payload ever gets an issue on the target
  price, and the issues of a payload do not depend on its target price.
\<close>

theorem buy_without_targetPrice_passes:
  "tipSchema any_url (example_payload (Some ''buy'') None) = []
   \<and> tipSchema any_url (example_payload (Some ''buy'') (Some [])) = []
   \<and> tipSchema any_url (example_payload (Some ''hold'') None) = []
   \<and> showTargetFields (example_payload (Some ''buy'') None)
   \<and> TargetPrice \<notin> fst ` set (tipSchema isUrl v)
   \<and> tipSchema isUrl (v\<lparr>targetPrice := x\<rparr>) = tipSchema isUrl v"
proof -
  have "TargetPrice \<notin> fst ` set (tipSchema isUrl v)"
    using tipSchema_fields[of isUrl v] by auto
  moreover have "tipSchema isUrl (v\<lparr>targetPrice := x\<rparr>) = tipSchema isUrl v"
    by (simp add: tipSchema_def z_optional_string_def)
  moreover have "showTargetFields (example_payload (Some ''buy'') None)"
    by (simp add: showTargetFields_def example_payload_def)
  ultimately show ?thesis
    by (simp add: example_payload_issues any_url_def)
qed

subsection \<open>Auto-calculated percentages\<close>

lemma pricePercentage_eq:
  "pricePercentage cur v =
     (if js_gt0 (parseFloat cur) \<and> js_gt0 (parseFloat v)
      then Some (toFixed2 (js_mul (js_div (js_sub (parseFloat v) (parseFloat cur))
                   (parseFloat cur)) (Finite 100)) @ ''%'')
      else None)"
  by (simp add: pricePercentage_def Let_def)

lemma parseFloat_empty: "parseFloat [] = NaN"
  by (simp add: parseFloat_def)

lemma pricePercentage_empty: "pricePercentage cur [] = None"
  by (simp add: pricePercentage_eq parseFloat_empty js_gt0_def)

lemma autoCalcTargetEffect_eq:
  assumes "selectedStockDetails st = Some stock" "isAutoCalcTarget st"
    and "targetPrice (formValues st) = Some v"
  shows "autoCalcTargetEffect st =
     (case pricePercentage (currentPrice stock) v of
        Some p \<Rightarrow> st\<lparr>formValues := (formValues st)\<lparr>targetPercentage := Some p\<rparr>\<rparr>
      | None \<Rightarrow> st)"
proof (cases "v = []")
  case True
  then show ?thesis using assms
    by (simp add: autoCalcTargetEffect_def truthy_def pricePercentage_empty)
next
  case False
  then show ?thesis using assms
    by (simp add: autoCalcTargetEffect_def truthy_def or_else_def)
qed

lemma autoCalcExitEffect_eq:
  assumes "selectedStockDetails st = Some stock" "isAutoCalcExit st"
    and "exitPrice (formValues st) = Some v"
  shows "autoCalcExitEffect st =
     (case pricePercentage (currentPrice stock) v of
        Some p \<Rightarrow> st\<lparr>formValues := (formValues st)\<lparr>exitStatusPercentage := Some p\<rparr>\<rparr>
      | None \<Rightarrow> st)"
proof (cases "v = []")
  case True
  then show ?thesis using assms
    by (simp add: autoCalcExitEffect_def truthy_def pricePercentage_empty)
next
  case False
  then show ?thesis using assms
    by (simp add: autoCalcExitEffect_def truthy_def or_else_def)
qed

text \<open>
  C2 (as amended). With a stock selected, the auto-calculate flag on and a target
  (respectively exit) price entered: when the stock's current price and the entered
  price both parse to numbers greater than zero, the effect sets the percentage field to
  \<open>((price - current) / current * 100).toFixed(2)\<close> followed by \<open>%\<close>, the
  arithmetic being that of doubles; when the current price is not a number greater
  than zero, or the entered price is not, the effect leaves the state unchanged.
\<close>

theorem autoCalc_percentage:
  assumes sel: "selectedStockDetails st = Some stock"
  shows "(isAutoCalcTarget st \<and> targetPrice (formValues st) = Some v \<longrightarrow>
            (js_gt0 (parseFloat (currentPrice stock)) \<and> js_gt0 (parseFloat v)
               \<longrightarrow> targetPercentage (formValues (autoCalcTargetEffect st))
                     = Some (toFixed2 (js_mul (js_div
                         (js_sub (parseFloat v) (parseFloat (currentPrice stock)))
                         (parseFloat (currentPrice stock))) (Finite 100)) @ ''%''))
          \<and> (\<not> js_gt0 (parseFloat (currentPrice stock)) \<longrightarrow> autoCalcTargetEffect st = st)
          \<and> (\<not> js_gt0 (parseFloat v) \<longrightarrow> autoCalcTargetEffect st = st))
       \<and> (isAutoCalcExit st \<and> exitPrice (formValues st) = Some v \<longrightarrow>
            (js_gt0 (parseFloat (currentPrice stock)) \<and> js_gt0 (parseFloat v)
               \<longrightarrow> exitStatusPercentage (formValues (autoCalcExitEffect st))
                     = Some (toFixed2 (js_mul (js_div
                         (js_sub (parseFloat v) (parseFloat (currentPrice stock)))
                         (parseFloat (currentPrice stock))) (Finite 100)) @ ''%''))
          \<and> (\<not> js_gt0 (parseFloat (currentPrice stock)) \<longrightarrow> autoCalcExitEffect st = st)
          \<and> (\<not> js_gt0 (parseFloat v) \<longrightarrow> autoCalcExitEffect st = st))"
proof -
  have T: "(js_gt0 (parseFloat (currentPrice stock)) \<and> js_gt0 (parseFloat v)
               \<longrightarrow> targetPercentage (formValues (autoCalcTargetEffect st))
                     = Some (toFixed2 (js_mul (js_div
                         (js_sub (parseFloat v) (parseFloat (currentPrice stock)))
                         (parseFloat (currentPrice stock))) (Finite 100)) @ ''%''))
          \<and> (\<not> js_gt0 (parseFloat (currentPrice stock)) \<longrightarrow> autoCalcTargetEffect st = st)
          \<and> (\<not> js_gt0 (parseFloat v) \<longrightarrow> autoCalcTargetEffect st = st)"
    if a: "isAutoCalcTarget st" and e: "targetPrice (formValues st) = Some v"
    by (simp add: autoCalcTargetEffect_eq[OF sel a e] pricePercentage_eq)
  have E: "(js_gt0 (parseFloat (currentPrice stock)) \<and> js_gt0 (parseFloat v)
               \<longrightarrow> exitStatusPercentage (formValues (autoCalcExitEffect st))
                     = Some (toFixed2 (js_mul (js_div
                         (js_sub (parseFloat v) (parseFloat (currentPrice stock)))
                         (parseFloat (currentPrice stock))) (Finite 100)) @ ''%''))
          \<and> (\<not> js_gt0 (parseFloat (currentPrice stock)) \<longrightarrow> autoCalcExitEffect st = st)
          \<and> (\<not> js_gt0 (parseFloat v) \<longrightarrow> autoCalcExitEffect st = st)"
    if a: "isAutoCalcExit st" and e: "exitPrice (formValues st) = Some v"
    by (simp add: autoCalcExitEffect_eq[OF sel a e] pricePercentage_eq)
  show ?thesis using T E by blast
qed

text \<open>
  Some values, computed in the kernel: the prices of the examples as doubles, and the
  three steps of the percentage for the example of the specification and for a pair on
  which the double arithmetic and the exact arithmetic round differently
  (\<open>200\<close> and \<open>202.01\<close>: exactly 1.005, as doubles just below it).
\<close>

lemma parse_examples:
  "parseFloat ''150.00'' = Finite 150"
  "parseFloat ''180'' = Finite 180"
  "parseFloat ''0'' = Finite 0"
  "parseFloat ''200'' = Finite 200"
  "parseFloat ''202.01'' = Finite (888449375708119 / 4398046511104)"
  by code_simp+

lemma percentage_180_150:
  "js_sub (Finite 180) (Finite 150) = Finite 30"
  "js_div (Finite 30) (Finite 150) = Finite (3602879701896397 / 18014398509481984)"
  "js_mul (Finite (3602879701896397 / 18014398509481984)) (Finite 100) = Finite 20"
  "toFixed2 (Finite 20) = ''20.00''"
  by code_simp+

lemma percentage_20201_200:
  "js_sub (Finite (888449375708119 / 4398046511104)) (Finite 200)
     = Finite (8840073487319 / 4398046511104)"
  "js_div (Finite (8840073487319 / 4398046511104)) (Finite 200)
     = Finite (1448357640162345 / 144115188075855872)"
  "js_mul (Finite (1448357640162345 / 144115188075855872)) (Finite 100)
     = Finite (8840073487319 / 8796093022208)"
  "toFixed2 (Finite (8840073487319 / 8796093022208)) = ''1.00''"
  by code_simp+

lemma pricePercentage_examples:
  "pricePercentage ''150.00'' ''180'' = Some ''20.00%''"
  "pricePercentage ''200'' ''202.01'' = Some ''1.00%''"
  "pricePercentage ''150.00'' ''0'' = None"
  by (simp_all add: pricePercentage_eq parse_examples js_gt0_def percentage_180_150
      percentage_20201_200)

lemma selected_dialog_facts:
  "selectedStockDetails selected_dialog = Some example_stock"
  "isAutoCalcTarget selected_dialog"
  "targetPercentage (formValues selected_dialog) = Some []"
  "targetPrice (formValues selected_dialog) = Some []"
  by (simp_all add: selected_dialog_def handleStockSelect_def setSearchTerm_def initial_dialog_def
      debounce_def clearTimeout_def first_render_def blank_form_def example_stock_def
      stockIdOf_def or_else_def truthy_def Let_def)

theorem autoCalc_percentage_witness:
  "selectedStockDetails (selected_dialog\<lparr>formValues := (formValues selected_dialog)\<lparr>targetPrice := Some ''180''\<rparr>\<rparr>)
      = Some example_stock
   \<and> js_gt0 (parseFloat (currentPrice example_stock)) \<and> js_gt0 (parseFloat ''180'')
   \<and> targetPercentage (formValues (autoCalcTargetEffect
        (selected_dialog\<lparr>formValues := (formValues selected_dialog)\<lparr>targetPrice := Some ''180''\<rparr>\<rparr>)))
      = Some ''20.00%''"
proof -
  let ?st = "selected_dialog\<lparr>formValues := (formValues selected_dialog)\<lparr>targetPrice := Some ''180''\<rparr>\<rparr>"
  have s: "selectedStockDetails ?st = Some example_stock"
    by (simp add: selected_dialog_facts)
  have a: "isAutoCalcTarget ?st" "targetPrice (formValues ?st) = Some ''180''"
    by (simp_all add: selected_dialog_facts)
  have c: "currentPrice example_stock = ''150.00''" by (simp add: example_stock_def)
  have g: "js_gt0 (parseFloat (currentPrice example_stock))" "js_gt0 (parseFloat ''180'')"
    by (simp_all add: c parse_examples js_gt0_def)
  from autoCalc_percentage[OF s, of "''180''"] a g
  have "targetPercentage (formValues (autoCalcTargetEffect ?st)) = Some ''20.00%''"
    by (simp add: c parse_examples percentage_180_150)
  then show ?thesis using s g by simp
qed

text \<open>
  The claim as stated fails at the entered price \<open>0\<close>: the flag is on, the example
  stock with current price \<open>150.00\<close> is selected, and the percentage field keeps its
  value instead of becoming \<open>-100.00%\<close>.
\<close>

theorem autoCalc_counterexample:
  "isAutoCalcTarget selected_dialog
   \<and> selectedStockDetails selected_dialog = Some example_stock
   \<and> parseFloat (currentPrice example_stock) = Finite 150
   \<and> targetPercentage (formValues selected_dialog) = Some []
   \<and> targetPercentage (formValues (enterTargetPrice ''0'' selected_dialog)) = Some []"
proof -
  let ?st = "selected_dialog\<lparr>formValues := (formValues selected_dialog)\<lparr>targetPrice := Some ''0''\<rparr>\<rparr>"
  have p: "parseFloat (currentPrice example_stock) = Finite 150"
    by (simp add: example_stock_def parse_examples)
  have "pricePercentage (currentPrice example_stock) ''0'' = None"
    by (simp add: example_stock_def pricePercentage_examples)
  then have "autoCalcTargetEffect ?st = ?st"
    by (simp add: autoCalcTargetEffect_def selected_dialog_facts truthy_def or_else_def)
  then have "targetPercentage (formValues (enterTargetPrice ''0'' selected_dialog)) = Some []"
    by (simp add: enterTargetPrice_def Let_def selected_dialog_facts)
  then show ?thesis using p by (simp add: selected_dialog_facts)
qed

subsection \<open>Submission\<close>

lemma setSearchTerm_dialog_frame:
  "formValues (setSearchTerm s st) = formValues st"
  "defaultValues (setSearchTerm s st) = defaultValues st"
  "selectedStockDetails (setSearchTerm s st) = selectedStockDetails st"
  "showResults (setSearchTerm s st) = showResults st"
  "dlg_searchResults (setSearchTerm s st) = dlg_searchResults st"
  "toasts (setSearchTerm s st) = toasts st"
  "openChangeCalls (setSearchTerm s st) = openChangeCalls st"
  "is_open (setSearchTerm s st) = is_open st"
  "stockDetailsCache (setSearchTerm s st) = stockDetailsCache st"
  "pendingDetails (setSearchTerm s st) = pendingDetails st"
  "detailCalls (setSearchTerm s st) = detailCalls st"
  "searchTerm (setSearchTerm s st) = s"
  by (cases "timeout st"; simp add: setSearchTerm_def debounce_def clearTimeout_def Let_def)+

lemma submitSucceeded_fields:
  "toasts (submitSucceeded msg st) =
     toasts st @ [\<lparr>toast_title = ''Success'', toast_description = msg, destructive = False\<rparr>]"
  "openChangeCalls (submitSucceeded msg st) = openChangeCalls st @ [False]"
  "formValues (submitSucceeded msg st) = defaultValues st"
  "selectedStockDetails (submitSucceeded msg st) = None"
  "searchTerm (submitSucceeded msg st) = []"
  "showResults (submitSucceeded msg st) = False"
  "dlg_searchResults (submitSucceeded msg st) = dlg_searchResults st"
  by (simp_all add: submitSucceeded_def setSearchTerm_dialog_frame reset_form_def)

lemma submitFailed_fields:
  "toasts (submitFailed e st) =
     toasts st @ [\<lparr>toast_title = ''Error'',
        toast_description = (case e of Error m \<Rightarrow> m | NonError \<Rightarrow> ''Failed to save tip''),
        destructive = True\<rparr>]"
  "openChangeCalls (submitFailed e st) = openChangeCalls st"
  "is_open (submitFailed e st) = is_open st"
  "formValues (submitFailed e st) = formValues st"
  "defaultValues (submitFailed e st) = defaultValues st"
  "selectedStockDetails (submitFailed e st) = selectedStockDetails st"
  "searchTerm (submitFailed e st) = searchTerm st"
  "showResults (submitFailed e st) = showResults st"
  "dlg_searchResults (submitFailed e st) = dlg_searchResults st"
  by (simp_all add: submitFailed_def)

lemma calling_frame:
  "toasts (calling vals st) = toasts st"
  "openChangeCalls (calling vals st) = openChangeCalls st"
  "is_open (calling vals st) = is_open st"
  "formValues (calling vals st) = formValues st"
  "defaultValues (calling vals st) = defaultValues st"
  "selectedStockDetails (calling vals st) = selectedStockDetails st"
  "searchTerm (calling vals st) = searchTerm st"
  "showResults (calling vals st) = showResults st"
  "dlg_searchResults (calling vals st) = dlg_searchResults st"
  by (simp_all add: calling_def Let_def split: option.splits)

lemma hasStockId_iff:
  "hasStockId vals st \<longleftrightarrow>
     \<not> (selectedStockDetails st = None \<and> \<not> truthy (stockId vals))
     \<and> (case selectedStockDetails st of
               None \<Rightarrow> or_else (stockId vals) []
             | Some s \<Rightarrow> or_else (stock_id s) (or_else (stockId vals) [])) \<noteq> []"
  by (auto simp: hasStockId_def truthy_def or_else_def split: option.splits)

lemma onValidSubmit_no_id:
  assumes "\<not> hasStockId vals st"
  shows "\<exists>m. onValidSubmit vals outcome st = submitFailed (Error m) st"
  using assms unfolding hasStockId_iff onValidSubmit_def by (auto simp: Let_def)

lemma onValidSubmit_with_id:
  assumes "hasStockId vals st"
  shows "onValidSubmit vals outcome st =
     (case outcome of
        Some e \<Rightarrow> submitFailed e (calling vals st)
      | None \<Rightarrow>
          submitSucceeded
            (if (case initialData st of None \<Rightarrow> False | Some tip \<Rightarrow> truthy (tip_id tip))
             then ''Tip updated successfully'' else ''Tip created successfully'')
            (calling vals st))"
  using assms unfolding hasStockId_iff onValidSubmit_def calling_def
  by (auto simp: Let_def truthy_def[of None] split: option.splits)

text \<open>
  C7 (as amended). A submission succeeds when it has a stock id and the remote call
  resolves. Then one confirmation is shown, \<open>onOpenChange(false)\<close> is called, the form
  values are put back to the form's default values, the selected stock is cleared, the
  search text is emptied and the result list is hidden; the contents of the result list
  are left as they are. Otherwise one error notification is shown, \<open>onOpenChange\<close> is
  not called, the dialog stays as open as it was, and the form values, the selection,
  the search text and the result list are unchanged.
\<close>

theorem onValidSubmit_outcomes:
  "(hasStockId vals st \<and> outcome = None \<longrightarrow>
      (\<exists>msg. toasts (onValidSubmit vals outcome st) =
         toasts st @ [\<lparr>toast_title = ''Success'', toast_description = msg, destructive = False\<rparr>])
      \<and> openChangeCalls (onValidSubmit vals outcome st) = openChangeCalls st @ [False]
      \<and> formValues (onValidSubmit vals outcome st) = defaultValues st
      \<and> selectedStockDetails (onValidSubmit vals outcome st) = None
      \<and> searchTerm (onValidSubmit vals outcome st) = []
      \<and> showResults (onValidSubmit vals outcome st) = False
      \<and> dlg_searchResults (onValidSubmit vals outcome st) = dlg_searchResults st)
   \<and> (\<not> hasStockId vals st \<or> outcome \<noteq> None \<longrightarrow>
      (\<exists>msg. toasts (onValidSubmit vals outcome st) =
         toasts st @ [\<lparr>toast_title = ''Error'', toast_description = msg, destructive = True\<rparr>])
      \<and> openChangeCalls (onValidSubmit vals outcome st) = openChangeCalls st
      \<and> is_open (onValidSubmit vals outcome st) = is_open st
      \<and> formValues (onValidSubmit vals outcome st) = formValues st
      \<and> selectedStockDetails (onValidSubmit vals outcome st) = selectedStockDetails st
      \<and> searchTerm (onValidSubmit vals outcome st) = searchTerm st
      \<and> showResults (onValidSubmit vals outcome st) = showResults st
      \<and> dlg_searchResults (onValidSubmit vals outcome st) = dlg_searchResults st)"
proof (cases "hasStockId vals st")
  case False
  from onValidSubmit_no_id[OF False, of outcome] obtain m where
    "onValidSubmit vals outcome st = submitFailed (Error m) st" by blast
  then show ?thesis using False by (simp add: submitFailed_fields)
next
  case True
  show ?thesis
  proof (cases outcome)
    case None
    then show ?thesis using True
      by (simp add: onValidSubmit_with_id[OF True] submitSucceeded_fields calling_frame)
  next
    case (Some e)
    then show ?thesis using True
      by (simp add: onValidSubmit_with_id[OF True] submitFailed_fields calling_frame)
  qed
qed

lemmas dialog_defs = openDialog_def openEffect_def reset_form_def setSearchTerm_def
  debounce_def clearTimeout_def dlg_advance_def advanceTimers_def fireTimer_def
  dlg_searchCallback_def initial_dialog_def first_render_def truthy_def or_else_def Let_def

lemma opened_state:
  "openDialog (Some example_tip) initial_dialog =
     initial_dialog\<lparr>is_open := True, initialData := Some example_tip,
       pendingDetails := [example_tip], detailCalls := [''s1''],
       formValues := formFromTip example_tip, defaultValues := formFromTip example_tip\<rparr>"
  by (simp add: dialog_defs example_tip_def)

lemma searching_dialog_eq:
  "searching_dialog =
     initial_dialog\<lparr>is_open := True, initialData := Some example_tip,
       pendingDetails := [example_tip], detailCalls := [''s1''],
       formValues := formFromTip example_tip, defaultValues := formFromTip example_tip,
       searchTerm := ''tc'', timeouts := [], next_handle := 3, timeout := Some 2,
       clock := 300, fired := [''tc''], searchCalls := [''tc''],
       dlg_searchResults := [example_stock], showResults := True, focusedIndex := - 1,
       dlg_isSearching := False\<rparr>"
  unfolding searching_dialog_def
  by (simp add: opened_state) (simp add: dialog_defs example_server_def)


lemma example_tip_valid: "tipSchema any_url (formFromTip example_tip) = []"
  by (simp add: schema_defs formFromTip_def contentString_def example_tip_def or_else_def any_url_def)

lemma searching_hasStockId: "hasStockId (formFromTip example_tip) searching_dialog"
  by (simp add: hasStockId_def formFromTip_def example_tip_def truthy_def or_else_def)

text \<open>
  The claim as stated fails on the result list: in the edit session in which \<open>tc\<close>
  was searched, a successful submission closes the dialog and hides the results, and the
  result list still holds the record the search returned. (It is emptied only later, if
  the debounced search fires with the emptied search text.)
\<close>

theorem submit_keeps_results:
  "dlg_searchResults searching_dialog = [example_stock]
   \<and> openChangeCalls (submitForm any_url None searching_dialog) = [False]
   \<and> showResults (submitForm any_url None searching_dialog) = False
   \<and> dlg_searchResults (submitForm any_url None searching_dialog) = [example_stock]"
proof -
  have f: "formValues searching_dialog = formFromTip example_tip"
    by (simp add: searching_dialog_eq)
  have s: "submitForm any_url None searching_dialog =
             onValidSubmit (formFromTip example_tip) None searching_dialog"
    by (simp add: submitForm_def f example_tip_valid)
  have r: "dlg_searchResults searching_dialog = [example_stock]"
    by (simp add: searching_dialog_eq)
  have o: "openChangeCalls searching_dialog = []"
    by (simp add: searching_dialog_eq dialog_defs)
  have h: "hasStockId (formFromTip example_tip) searching_dialog"
    by (rule searching_hasStockId)
  show ?thesis
    by (simp add: s r o onValidSubmit_with_id[OF h] submitSucceeded_fields calling_frame)
qed

theorem onValidSubmit_outcomes_witness:
  "hasStockId (formFromTip example_tip) searching_dialog
   \<and> formValues (onValidSubmit (formFromTip example_tip) None searching_dialog)
        = defaultValues searching_dialog
   \<and> searchTerm (onValidSubmit (formFromTip example_tip) None searching_dialog) = []
   \<and> selectedStockDetails (onValidSubmit (formFromTip example_tip) None searching_dialog) = None
   \<and> formValues (onValidSubmit (formFromTip example_tip) (Some (Error ''offline'')) searching_dialog)
        = formValues searching_dialog
   \<and> openChangeCalls (onValidSubmit (formFromTip example_tip) (Some (Error ''offline''))
        searching_dialog) = openChangeCalls searching_dialog"
proof -
  have h: "hasStockId (formFromTip example_tip) searching_dialog"
    by (rule searching_hasStockId)
  from onValidSubmit_outcomes[of "formFromTip example_tip" searching_dialog None]
    onValidSubmit_outcomes[of "formFromTip example_tip" searching_dialog "Some (Error ''offline'')"]
    h
  show ?thesis by simp
qed

subsection \<open>The detail cache and the fallback record\<close>

lemma dlg_searchCallback_cache:
  "stockDetailsCache (dlg_searchCallback srv a st) = stockDetailsCache st"
  "pendingDetails (dlg_searchCallback srv a st) = pendingDetails st"
  by (cases "srv a"; simp add: dlg_searchCallback_def Let_def)+

lemma foldl_fire_cache:
  "stockDetailsCache (foldl (\<lambda>s x. fireTimer (dlg_searchCallback srv) x s) st due)
     = stockDetailsCache st
   \<and> pendingDetails (foldl (\<lambda>s x. fireTimer (dlg_searchCallback srv) x s) st due)
     = pendingDetails st"
  by (induction due arbitrary: st) (simp_all add: fireTimer_def dlg_searchCallback_cache split_def)

lemma dlg_advance_cache:
  "stockDetailsCache (dlg_advance srv d st) = stockDetailsCache st"
  "pendingDetails (dlg_advance srv d st) = pendingDetails st"
  by (simp_all add: dlg_advance_def advanceTimers_def Let_def foldl_fire_cache)

lemma effects_cache:
  "stockDetailsCache (autoCalcTargetEffect st) = stockDetailsCache st"
  "pendingDetails (autoCalcTargetEffect st) = pendingDetails st"
  "stockDetailsCache (autoCalcExitEffect st) = stockDetailsCache st"
  "pendingDetails (autoCalcExitEffect st) = pendingDetails st"
  by (simp_all add: autoCalcTargetEffect_def autoCalcExitEffect_def split: option.splits)

lemma enter_toggle_cache:
  "stockDetailsCache (enterTargetPrice v st) = stockDetailsCache st"
  "pendingDetails (enterTargetPrice v st) = pendingDetails st"
  "stockDetailsCache (enterExitPrice v st) = stockDetailsCache st"
  "pendingDetails (enterExitPrice v st) = pendingDetails st"
  "stockDetailsCache (toggleAutoCalcTarget st) = stockDetailsCache st"
  "pendingDetails (toggleAutoCalcTarget st) = pendingDetails st"
  "stockDetailsCache (toggleAutoCalcExit st) = stockDetailsCache st"
  "pendingDetails (toggleAutoCalcExit st) = pendingDetails st"
  by (simp_all add: enterTargetPrice_def enterExitPrice_def toggleAutoCalcTarget_def
      toggleAutoCalcExit_def effects_cache Let_def)

lemma openEffect_cache:
  "stockDetailsCache (openEffect st) = stockDetailsCache st"
  by (simp add: openEffect_def reset_form_def setSearchTerm_dialog_frame split: option.splits)

lemma openEffect_pending:
  "pendingDetails (openEffect st) =
     (if is_open st then
        (case initialData st of
           Some tip \<Rightarrow>
             if truthy (tip_stockId tip)
                \<and> stockDetailsCache st (or_else (tip_stockId tip) []) = None
             then pendingDetails st @ [tip] else pendingDetails st
         | None \<Rightarrow> pendingDetails st)
      else pendingDetails st)"
  by (simp add: openEffect_def reset_form_def setSearchTerm_dialog_frame split: option.splits)

lemma detailFetched_cache:
  "stockDetailsCache (detailFetched tip out st) =
     (if tip \<in> set (pendingDetails st) then
        (case out of Inr stock \<Rightarrow> (stockDetailsCache st)(or_else (tip_stockId tip) [] \<mapsto> stock)
         | Inl e \<Rightarrow> stockDetailsCache st)
      else stockDetailsCache st)"
  "set (pendingDetails (detailFetched tip out st)) \<subseteq> set (pendingDetails st)"
  using set_remove1_subset[of tip "pendingDetails st"]
  by (auto simp: detailFetched_def Let_def split: sum.splits)

lemma handleStockSelect_cache:
  "stockDetailsCache (handleStockSelect stock st) =
     (if stockIdOf stock \<noteq> [] then (stockDetailsCache st)(stockIdOf stock \<mapsto> stock)
      else stockDetailsCache st)"
  "pendingDetails (handleStockSelect stock st) = pendingDetails st"
  by (simp_all add: handleStockSelect_def setSearchTerm_dialog_frame Let_def)

lemma handleStockClear_cache:
  "stockDetailsCache (handleStockClear st) = stockDetailsCache st"
  "pendingDetails (handleStockClear st) = pendingDetails st"
  by (simp_all add: handleStockClear_def setSearchTerm_dialog_frame)

lemma submit_parts_cache:
  "stockDetailsCache (submitFailed e st) = stockDetailsCache st"
  "pendingDetails (submitFailed e st) = pendingDetails st"
  "stockDetailsCache (submitSucceeded m st) = stockDetailsCache st"
  "pendingDetails (submitSucceeded m st) = pendingDetails st"
  by (simp_all add: submitFailed_def submitSucceeded_def reset_form_def setSearchTerm_dialog_frame)

lemma onValidSubmit_cache:
  "stockDetailsCache (onValidSubmit vals outcome st) = stockDetailsCache st"
  "pendingDetails (onValidSubmit vals outcome st) = pendingDetails st"
  by (simp_all add: onValidSubmit_def submit_parts_cache Let_def split: option.splits)

lemma submitForm_cache:
  "stockDetailsCache (submitForm isUrl outcome st) = stockDetailsCache st"
  "pendingDetails (submitForm isUrl outcome st) = pendingDetails st"
  by (simp_all add: submitForm_def onValidSubmit_cache)


lemma cache_inv_initial: "cache_inv initial_dialog"
  by (simp add: cache_inv_def initial_dialog_def debounce_def clearTimeout_def first_render_def
      Let_def)

lemma cache_inv_frame:
  "stockDetailsCache st' = stockDetailsCache st \<Longrightarrow> pendingDetails st' = pendingDetails st \<Longrightarrow>
   cache_inv st \<Longrightarrow> cache_inv st'"
  by (simp add: cache_inv_def)

lemma cache_inv_step:
  assumes i: "cache_inv st"
  shows "cache_inv (dialog_step srv isUrl e st)"
proof (cases e)
  case (OpenDialog tip)
  have "cache_inv (st\<lparr>is_open := True, initialData := tip\<rparr>)"
    using i by (simp add: cache_inv_def)
  then show ?thesis using OpenDialog
    by (auto simp: openDialog_def cache_inv_def openEffect_cache openEffect_pending
        split: option.splits)
next
  case CloseDialog
  have "cache_inv (st\<lparr>is_open := False\<rparr>)" using i by (simp add: cache_inv_def)
  then show ?thesis using CloseDialog
    by (auto simp: closeDialog_def cache_inv_def openEffect_cache openEffect_pending
        split: option.splits)
next
  case (DetailFetched tip out)
  have p: "list_all (\<lambda>t. truthy (tip_stockId t)) (pendingDetails (detailFetched tip out st))"
    using i detailFetched_cache(2)[of tip out st] by (auto simp: cache_inv_def list_all_iff)
  have k: "tip \<in> set (pendingDetails st) \<Longrightarrow> or_else (tip_stockId tip) [] \<noteq> []"
    using i by (auto simp: cache_inv_def list_all_iff truthy_def or_else_def split: option.splits)
  show ?thesis using DetailFetched i p k
    by (auto simp: cache_inv_def detailFetched_cache(1) split: sum.splits)
next
  case (SetSearchTerm s)
  then show ?thesis using i
    by (simp add: cache_inv_frame[of "setSearchTerm s st" st] setSearchTerm_dialog_frame)
next
  case (AdvanceDialog d)
  then show ?thesis using i
    by (simp add: cache_inv_frame[of "dlg_advance srv d st" st] dlg_advance_cache)
next
  case (StockSelect stock)
  then show ?thesis using i by (simp add: cache_inv_def handleStockSelect_cache)
next
  case StockClear
  then show ?thesis using i by (simp add: cache_inv_def handleStockClear_cache)
next
  case ClickOutside
  then show ?thesis using i by (simp add: cache_inv_def handleClickOutside_def)
next
  case (EditForm f)
  then show ?thesis using i by (simp add: cache_inv_def)
next
  case (EnterTargetPrice v)
  then show ?thesis using i by (simp add: cache_inv_def enter_toggle_cache)
next
  case (EnterExitPrice v)
  then show ?thesis using i by (simp add: cache_inv_def enter_toggle_cache)
next
  case ToggleAutoCalcTarget
  then show ?thesis using i by (simp add: cache_inv_def enter_toggle_cache)
next
  case ToggleAutoCalcExit
  then show ?thesis using i by (simp add: cache_inv_def enter_toggle_cache)
next
  case RunTargetEffect
  then show ?thesis using i by (simp add: cache_inv_def effects_cache)
next
  case RunExitEffect
  then show ?thesis using i by (simp add: cache_inv_def effects_cache)
next
  case (SubmitForm outcome)
  then show ?thesis using i by (simp add: cache_inv_def submitForm_cache)
qed

lemma cache_inv_run: "cache_inv st \<Longrightarrow> cache_inv (dialog_run srv isUrl es st)"
  by (induction es arbitrary: st) (simp_all add: cache_inv_step)

lemma cache_grows:
  "dom (stockDetailsCache st) \<subseteq> dom (stockDetailsCache (dialog_step srv isUrl e st))"
proof (cases e)
  case (OpenDialog tip)
  then show ?thesis by (simp add: openDialog_def openEffect_cache)
next
  case CloseDialog
  then show ?thesis by (simp add: closeDialog_def openEffect_cache)
next
  case (DetailFetched tip out)
  then show ?thesis by (auto simp: detailFetched_cache(1) split: sum.splits)
next
  case (StockSelect stock)
  then show ?thesis by (auto simp: handleStockSelect_cache)
qed (simp_all add: setSearchTerm_dialog_frame dlg_advance_cache handleStockClear_cache
      handleClickOutside_def enter_toggle_cache effects_cache submitForm_cache)

lemma open_hit:
  assumes "stockDetailsCache st k = Some r" "tip_stockId tip = Some k" "k \<noteq> []"
  shows "openDialog (Some tip) st =
           reset_form (Some (formFromTip tip))
             (st\<lparr>is_open := True, initialData := Some tip, selectedStockDetails := Some r\<rparr>)"
  using assms by (simp add: openDialog_def openEffect_def truthy_def or_else_def)

lemma open_miss:
  assumes "stockDetailsCache st k = None" "tip_stockId tip = Some k" "k \<noteq> []"
  shows "openDialog (Some tip) st =
           reset_form (Some (formFromTip tip))
             (st\<lparr>is_open := True, initialData := Some tip,
                 pendingDetails := pendingDetails st @ [tip],
                 detailCalls := detailCalls st @ [k]\<rparr>)"
  using assms by (simp add: openDialog_def openEffect_def truthy_def or_else_def)

text \<open>
  C8. In every state a dialog session reaches, and in any state for a key that is not
  empty, opening the dialog for a tip whose stock id is in the cache makes no
  \<open>fetchStockSymbolById\<close> call and selects the cached record; on a miss the call is
  made. A detail fetch that succeeds stores the record
  under the tip's stock id, and selecting a stock stores it under its id (a record
  without an id has no key to be stored under). No event of the dialog removes a key
  from the cache.
\<close>

theorem detail_cache:
  "(stockDetailsCache (dialog_run srv isUrl evs initial_dialog) k = Some r
      \<and> tip_stockId tip = Some k \<longrightarrow>
        detailCalls (openDialog (Some tip) (dialog_run srv isUrl evs initial_dialog))
          = detailCalls (dialog_run srv isUrl evs initial_dialog)
        \<and> pendingDetails (openDialog (Some tip) (dialog_run srv isUrl evs initial_dialog))
          = pendingDetails (dialog_run srv isUrl evs initial_dialog)
        \<and> selectedStockDetails (openDialog (Some tip) (dialog_run srv isUrl evs initial_dialog))
          = Some r)
   \<and> (stockDetailsCache st k = Some r \<and> tip_stockId tip = Some k \<and> k \<noteq> [] \<longrightarrow>
        detailCalls (openDialog (Some tip) st) = detailCalls st
        \<and> selectedStockDetails (openDialog (Some tip) st) = Some r)
   \<and> (stockDetailsCache st k = None \<and> tip_stockId tip = Some k \<and> k \<noteq> [] \<longrightarrow>
        detailCalls (openDialog (Some tip) st) = detailCalls st @ [k])
   \<and> (tip \<in> set (pendingDetails st) \<longrightarrow>
        stockDetailsCache (detailFetched tip (Inr stock) st) (or_else (tip_stockId tip) [])
          = Some stock)
   \<and> (stockIdOf stock \<noteq> [] \<longrightarrow>
        stockDetailsCache (handleStockSelect stock st) (stockIdOf stock) = Some stock)
   \<and> dom (stockDetailsCache st) \<subseteq> dom (stockDetailsCache (dialog_step srv isUrl e st))"
proof -
  let ?st = "dialog_run srv isUrl evs initial_dialog"
  have i: "cache_inv ?st" by (rule cache_inv_run[OF cache_inv_initial])
  have 1: "detailCalls (openDialog (Some tip) ?st) = detailCalls ?st
        \<and> pendingDetails (openDialog (Some tip) ?st) = pendingDetails ?st
        \<and> selectedStockDetails (openDialog (Some tip) ?st) = Some r"
    if h: "stockDetailsCache ?st k = Some r" and t: "tip_stockId tip = Some k"
  proof -
    have "k \<noteq> []" using i h by (auto simp: cache_inv_def)
    from open_hit[OF h t this] show ?thesis by (simp add: reset_form_def)
  qed
  have 2: "detailCalls (openDialog (Some tip) st) = detailCalls st @ [k]"
    if "stockDetailsCache st k = None" "tip_stockId tip = Some k" "k \<noteq> []"
    using open_miss[OF that] by (simp add: reset_form_def)
  have 5: "detailCalls (openDialog (Some tip) st) = detailCalls st
        \<and> selectedStockDetails (openDialog (Some tip) st) = Some r"
    if "stockDetailsCache st k = Some r" "tip_stockId tip = Some k" "k \<noteq> []"
    using open_hit[OF that] by (simp add: reset_form_def)
  have 3: "stockDetailsCache (detailFetched tip (Inr stock) st) (or_else (tip_stockId tip) [])
          = Some stock" if "tip \<in> set (pendingDetails st)"
    using that by (simp add: detailFetched_cache(1))
  have 4: "stockDetailsCache (handleStockSelect stock st) (stockIdOf stock) = Some stock"
    if "stockIdOf stock \<noteq> []"
    using that by (simp add: handleStockSelect_cache)
  show ?thesis using 1 2 3 4 5 cache_grows[of st srv isUrl e] by blast
qed


lemma selected_dialog_cache:
  "stockDetailsCache selected_dialog ''s1'' = Some example_stock"
  "detailCalls selected_dialog = []"
  by (simp_all add: selected_dialog_def handleStockSelect_cache stockIdOf_def example_stock_def
      or_else_def handleStockSelect_def setSearchTerm_dialog_frame Let_def initial_dialog_def
      debounce_def clearTimeout_def first_render_def)

lemma opened_pending:
  "pendingDetails (openDialog (Some example_tip) initial_dialog) = [example_tip]"
  by (simp add: openDialog_def openEffect_pending truthy_def or_else_def example_tip_def
      initial_dialog_def debounce_def clearTimeout_def first_render_def Let_def)

theorem detail_cache_witness:
  "stockDetailsCache (dialog_run example_server any_url [StockSelect example_stock] initial_dialog)
      ''s1'' = Some example_stock
   \<and> tip_stockId example_tip = Some ''s1''
   \<and> detailCalls (openDialog (Some example_tip)
        (dialog_run example_server any_url [StockSelect example_stock] initial_dialog)) = []
   \<and> selectedStockDetails (openDialog (Some example_tip)
        (dialog_run example_server any_url [StockSelect example_stock] initial_dialog))
        = Some example_stock
   \<and> example_tip \<in> set (pendingDetails (openDialog (Some example_tip) initial_dialog))
   \<and> stockDetailsCache (detailFetched example_tip (Inr example_stock)
        (openDialog (Some example_tip) initial_dialog)) ''s1'' = Some example_stock"
proof -
  have r: "dialog_run example_server any_url [StockSelect example_stock] initial_dialog
             = selected_dialog"
    by (simp add: selected_dialog_def)
  have a: "stockDetailsCache selected_dialog ''s1'' = Some example_stock"
    by (rule selected_dialog_cache)
  have b: "tip_stockId example_tip = Some ''s1''" by (simp add: example_tip_def)
  have c: "example_tip \<in> set (pendingDetails (openDialog (Some example_tip) initial_dialog))"
    by (simp add: opened_pending)
  have d: "or_else (tip_stockId example_tip) [] = ''s1''" by (simp add: b or_else_def)
  note t = detail_cache[where srv = example_server and isUrl = any_url
      and evs = "[StockSelect example_stock]" and k = "''s1''" and r = example_stock
      and tip = example_tip and st = "openDialog (Some example_tip) initial_dialog"
      and stock = example_stock and e = CloseDialog, unfolded r]
  show ?thesis unfolding r using t a b c d selected_dialog_cache(2) by simp
qed

text \<open>
  C9. When the detail fetch made for a tip fails, no notification is shown and the
  cache is left alone; the selected record becomes the fallback record, whose current
  price is the tip's target price, or \<open>0\<close> when that is absent. While that record is
  selected, the auto-calculation effects take the tip's target price as the reference
  price: they set the target and exit percentages to what \<open>pricePercentage\<close> gives for
  that reference and the entered price, which is
  \<open>((price - reference) / reference * 100).toFixed(2)\<close> followed by \<open>%\<close> when both
  are greater than zero.
\<close>

theorem fetch_failure_fallback:
  assumes "tip \<in> set (pendingDetails st)"
  shows "toasts (detailFetched tip (Inl err) st) = toasts st
       \<and> stockDetailsCache (detailFetched tip (Inl err) st) = stockDetailsCache st
       \<and> selectedStockDetails (detailFetched tip (Inl err) st) = Some (fallbackStock tip)
       \<and> currentPrice (fallbackStock tip) = or_else (tip_targetPrice tip) ''0''
       \<and> (selectedStockDetails s = Some (fallbackStock tip) \<longrightarrow>
              (isAutoCalcTarget s \<and> targetPrice (formValues s) = Some v \<longrightarrow>
                 autoCalcTargetEffect s =
                   (case pricePercentage (or_else (tip_targetPrice tip) ''0'') v of
                      Some p \<Rightarrow> s\<lparr>formValues := (formValues s)\<lparr>targetPercentage := Some p\<rparr>\<rparr>
                    | None \<Rightarrow> s))
            \<and> (isAutoCalcExit s \<and> exitPrice (formValues s) = Some v \<longrightarrow>
                 autoCalcExitEffect s =
                   (case pricePercentage (or_else (tip_targetPrice tip) ''0'') v of
                      Some p \<Rightarrow> s\<lparr>formValues := (formValues s)\<lparr>exitStatusPercentage := Some p\<rparr>\<rparr>
                    | None \<Rightarrow> s))
            \<and> (js_gt0 (parseFloat (or_else (tip_targetPrice tip) ''0''))
                  \<and> js_gt0 (parseFloat v) \<longrightarrow>
                 pricePercentage (or_else (tip_targetPrice tip) ''0'') v =
                   Some (toFixed2 (js_mul (js_div
                      (js_sub (parseFloat v) (parseFloat (or_else (tip_targetPrice tip) ''0'')))
                      (parseFloat (or_else (tip_targetPrice tip) ''0''))) (Finite 100)) @ ''%'')))"
proof -
  have f: "detailFetched tip (Inl err) st =
             st\<lparr>pendingDetails := remove1 tip (pendingDetails st),
                selectedStockDetails := Some (fallbackStock tip)\<rparr>"
    using assms by (simp add: detailFetched_def Let_def)
  have c: "currentPrice (fallbackStock tip) = or_else (tip_targetPrice tip) ''0''"
    by (simp add: fallbackStock_def)
  have T: "autoCalcTargetEffect s =
             (case pricePercentage (or_else (tip_targetPrice tip) ''0'') v of
                Some p \<Rightarrow> s\<lparr>formValues := (formValues s)\<lparr>targetPercentage := Some p\<rparr>\<rparr>
              | None \<Rightarrow> s)"
    if "selectedStockDetails s = Some (fallbackStock tip)" "isAutoCalcTarget s"
      "targetPrice (formValues s) = Some v"
    using autoCalcTargetEffect_eq[OF that] by (simp add: c)
  have E: "autoCalcExitEffect s =
             (case pricePercentage (or_else (tip_targetPrice tip) ''0'') v of
                Some p \<Rightarrow> s\<lparr>formValues := (formValues s)\<lparr>exitStatusPercentage := Some p\<rparr>\<rparr>
              | None \<Rightarrow> s)"
    if "selectedStockDetails s = Some (fallbackStock tip)" "isAutoCalcExit s"
      "exitPrice (formValues s) = Some v"
    using autoCalcExitEffect_eq[OF that] by (simp add: c)
  have P: "pricePercentage (or_else (tip_targetPrice tip) ''0'') v =
             Some (toFixed2 (js_mul (js_div
                (js_sub (parseFloat v) (parseFloat (or_else (tip_targetPrice tip) ''0'')))
                (parseFloat (or_else (tip_targetPrice tip) ''0''))) (Finite 100)) @ ''%'')"
    if "js_gt0 (parseFloat (or_else (tip_targetPrice tip) ''0''))" "js_gt0 (parseFloat v)"
    using that by (simp add: pricePercentage_eq)
  have 1: "toasts (detailFetched tip (Inl err) st) = toasts st
       \<and> stockDetailsCache (detailFetched tip (Inl err) st) = stockDetailsCache st
       \<and> selectedStockDetails (detailFetched tip (Inl err) st) = Some (fallbackStock tip)"
    by (simp add: f)
  show ?thesis using 1 c T E P by blast
qed

lemma percentage_180_180:
  "js_sub (Finite 180) (Finite 180) = Finite 0"
  "js_div (Finite 0) (Finite 180) = Finite 0"
  "js_mul (Finite 0) (Finite 100) = Finite 0"
  "toFixed2 (Finite 0) = ''0.00''"
  by code_simp+

theorem fetch_failure_fallback_witness:
  "example_tip \<in> set (pendingDetails (openDialog (Some example_tip) initial_dialog))
   \<and> toasts (detailFetched example_tip (Inl (Error ''offline''))
        (openDialog (Some example_tip) initial_dialog)) = []
   \<and> currentPrice (fallbackStock example_tip) = ''180''
   \<and> targetPercentage (formValues (autoCalcTargetEffect
        (detailFetched example_tip (Inl (Error ''offline''))
          (openDialog (Some example_tip) initial_dialog)))) = Some ''0.00%''"
proof -
  let ?o = "openDialog (Some example_tip) initial_dialog"
  let ?s = "detailFetched example_tip (Inl (Error ''offline'')) ?o"
  have a: "example_tip \<in> set (pendingDetails ?o)" by (simp add: opened_pending)
  have o: "?o = initial_dialog\<lparr>is_open := True, initialData := Some example_tip,
       pendingDetails := [example_tip], detailCalls := [''s1''],
       formValues := formFromTip example_tip, defaultValues := formFromTip example_tip\<rparr>"
    by (simp add: openDialog_def openEffect_def reset_form_def truthy_def or_else_def
        example_tip_def initial_dialog_def debounce_def clearTimeout_def first_render_def Let_def)
  have tp: "or_else (tip_targetPrice example_tip) ''0'' = ''180''"
    by (simp add: example_tip_def or_else_def)
  have s: "?s = ?o\<lparr>pendingDetails := [], selectedStockDetails := Some (fallbackStock example_tip)\<rparr>"
    using a by (simp add: detailFetched_def Let_def opened_pending)
  have s1: "selectedStockDetails ?s = Some (fallbackStock example_tip)" by (simp add: s)
  have s2: "isAutoCalcTarget ?s"
    by (subst s, subst o)
      (simp add: initial_dialog_def debounce_def clearTimeout_def first_render_def Let_def)
  have s3: "targetPrice (formValues ?s) = Some ''180''"
    by (subst s, subst o) (simp add: formFromTip_def example_tip_def or_else_def)
  have s4: "toasts ?o = []"
    by (subst o)
      (simp add: initial_dialog_def debounce_def clearTimeout_def first_render_def Let_def)
  have p: "pricePercentage ''180'' ''180'' = Some ''0.00%''"
    by (simp add: pricePercentage_eq parse_examples js_gt0_def percentage_180_180)
  note t = fetch_failure_fallback[OF a, of "Error ''offline''" ?s "''180''", unfolded tp p]
  have "autoCalcTargetEffect ?s
          = ?s\<lparr>formValues := (formValues ?s)\<lparr>targetPercentage := Some ''0.00%''\<rparr>\<rparr>"
    using t s1 s2 s3 by simp
  then have "targetPercentage (formValues (autoCalcTargetEffect ?s)) = Some ''0.00%''"
    by simp
  then show ?thesis using t a s4 by simp
qed

end
